theory Spec2Isabelle
  imports Main
begin

section \<open>Signals, node and process-wide state\<close>

text \<open>
  The two signal enumerations are declared in \<^verbatim>\<open>openbuildnet.h\<close>; the constructors below
  are exactly the enumerators that \<^verbatim>\<open>openbuildnet.cpp\<close> names (\<^verbatim>\<open>getOBNSignalName\<close> lists all
  of \<^verbatim>\<open>OBNSignalToEPlus\<close>).
\<close>

datatype EPlusSignalToOBN = OBNSIG_NONE | OBNSIG_DONE | OBNSIG_TERM | OBNSIG_EXIT

datatype OBNSignalToEPlus =
  EPSIG_NONE | EPSIG_START | EPSIG_Y | EPSIG_X | EPSIG_TERM | EPSIG_QUIT | EPSIG_TIMEOUT

text \<open>
  Modelled from the spec: the node's lifecycle state (NORMAL, ERROR). The enumeration lives
  in the node library (\<^verbatim>\<open>obnnode.h\<close>); the source only ever assigns \<^verbatim>\<open>NODE_ERROR\<close>.
\<close>

datatype node_state = NODE_NORMAL | NODE_ERROR

text \<open>The only callback the source posts to the node's own event queue.\<close>

datatype callback_event = HandleEPlusSignal

text \<open>
  A log of the calls made, kept beside the program state so that orderings and counts
  ("posts DONE", "exactly once") can be stated. Every entry is appended by the model of the
  function it names, never by its callers.
\<close>

datatype event =
    SignalEPlus OBNSignalToEPlus
  | SignalOBN EPlusSignalToOBN
  | ResetEPlusSignal
  | ResetOBNSignal
  | WaitEPlusReturned EPlusSignalToOBN
  | WaitOBNReturned OBNSignalToEPlus
  | SetOutputValues nat
  | GetInputValues int
  | SetNodeState node_state
  | StopSimulation
  | ThreadJoined

text \<open>
  \<^verbatim>\<open>MQTTNodeEPlus\<close>: the fields this file reads or writes. Port values are \<^verbatim>\<open>double\<close>s that
  are only ever copied, so their type is left open (\<open>'v\<close>).
\<close>

record 'v MQTTNodeEPlus =
  t_name :: string
  t_ws :: string
  server_address :: "string option"
  node_state :: node_state
  m_double_input :: "'v list"
  m_double_output :: "'v list"
  callback_queue :: "callback_event list"

text \<open>\<^verbatim>\<open>EPlusOBNThread\<close>: \<open>m_thread_joinable\<close> is \<^verbatim>\<open>m_thread.joinable()\<close>.\<close>

record 'v EPlusOBNThread =
  m_thread_joinable :: bool
  m_obnnode :: "'v MQTTNodeEPlus"

text \<open>
  The namespace-level variables. \<open>obn_thread\<close> is the \<^verbatim>\<open>unique_ptr\<close>: \<open>None\<close> is the null
  pointer.
\<close>

record 'v globals =
  quitIfOBNTerminates :: bool
  default_obn_timeout :: int
  eplus_signal_to_obn :: EPlusSignalToOBN
  obn_signal_to_eplus :: OBNSignalToEPlus
  obn_thread :: "'v EPlusOBNThread option"
  history :: "event list"

text \<open>
  How a call ends: it returns, it never returns (a wait that nothing ends), or it does not
  complete: by a member access through a null \<open>obn_thread\<close>, which the language leaves
  undefined, or by the exception that a failed resize of a port throws, which nothing in
  this file catches.
\<close>

datatype error = NullPointerDereference | AllocationFailure

datatype 'a outcome = Returns 'a | Blocks | Fails error

fun and_then :: "'a outcome \<Rightarrow> ('a \<Rightarrow> 'b outcome) \<Rightarrow> 'b outcome" where
  "and_then (Returns x) f = f x"
| "and_then Blocks f = Blocks"
| "and_then (Fails e) f = Fails e"

definition log_event :: "event \<Rightarrow> 'v globals \<Rightarrow> 'v globals" where
  "log_event e s = s\<lparr>history := history s @ [e]\<rparr>"

section \<open>The two mailboxes\<close>

text \<open>
  What the other thread does while this one sleeps on a condition variable is given as the
  list of wake-ups the sleeper goes through, in order: \<open>Notified v\<close> is a post of \<open>v\<close> to the
  mailbox followed by \<^verbatim>\<open>notify_all\<close>, \<open>Elapsed\<close> is the expiry of the timer of a timed wait.
  The end of the list means that nothing is ever posted again.
\<close>

datatype 'a wakeup = Notified 'a | Elapsed

text \<open>
  \<^verbatim>\<open>condition_variable::wait(lock, pred)\<close> with \<^verbatim>\<open>pred\<close> "the mailbox is not \<open>none\<close>": the loop
  \<^verbatim>\<open>while (!pred()) wait(lock)\<close>. \<open>None\<close> means that the call never returns.
\<close>

fun cond_wait :: "'a \<Rightarrow> 'a wakeup list \<Rightarrow> ('a \<times> 'a wakeup list) option" where
  "cond_wait none [] = None"
| "cond_wait none (Notified v # ws) = (if v \<noteq> none then Some (v, ws) else cond_wait none ws)"
| "cond_wait none (Elapsed # ws) = cond_wait none ws"

text \<open>
  \<^verbatim>\<open>condition_variable::wait_for(lock, duration, pred)\<close>: the first component is \<open>Some v\<close>
  when the predicate became true with the mailbox holding \<open>v\<close>, and \<open>None\<close> when the timer
  expired with the predicate still false. It always returns.
\<close>

fun cond_wait_for :: "'a \<Rightarrow> 'a wakeup list \<Rightarrow> 'a option \<times> 'a wakeup list" where
  "cond_wait_for none [] = (None, [])"
| "cond_wait_for none (Notified v # ws) =
     (if v \<noteq> none then (Some v, ws) else cond_wait_for none ws)"
| "cond_wait_for none (Elapsed # ws) = (None, ws)"

definition signalEPlus :: "OBNSignalToEPlus \<Rightarrow> 'v globals \<Rightarrow> 'v globals" where
  "signalEPlus sig s = log_event (SignalEPlus sig) (s\<lparr>obn_signal_to_eplus := sig\<rparr>)"

definition waitforEPlusSignal ::
  "'v globals \<Rightarrow> EPlusSignalToOBN wakeup list \<Rightarrow>
     (EPlusSignalToOBN \<times> 'v globals \<times> EPlusSignalToOBN wakeup list) outcome" where
  "waitforEPlusSignal s ws =
     (if eplus_signal_to_obn s \<noteq> OBNSIG_NONE
      then Returns (eplus_signal_to_obn s,
                    log_event (WaitEPlusReturned (eplus_signal_to_obn s)) s, ws)
      else (case cond_wait OBNSIG_NONE ws of
              None \<Rightarrow> Blocks
            | Some (v, ws') \<Rightarrow>
                Returns (v, log_event (WaitEPlusReturned v) (s\<lparr>eplus_signal_to_obn := v\<rparr>),
                         ws')))"

definition resetEPlusSignal :: "'v globals \<Rightarrow> 'v globals" where
  "resetEPlusSignal s = log_event ResetEPlusSignal (s\<lparr>eplus_signal_to_obn := OBNSIG_NONE\<rparr>)"

definition getOBNSignal :: "'v globals \<Rightarrow> OBNSignalToEPlus" where
  "getOBNSignal s = obn_signal_to_eplus s"

definition resetOBNSignal :: "'v globals \<Rightarrow> 'v globals" where
  "resetOBNSignal s = log_event ResetOBNSignal (s\<lparr>obn_signal_to_eplus := EPSIG_NONE\<rparr>)"

text \<open>
  \<^verbatim>\<open>waitforOBNSignal(timeout)\<close>. A non-positive argument is replaced by the process-wide
  default; the wait is untimed only if the value is still non-positive after that.
\<close>

definition waitforOBNSignal ::
  "int \<Rightarrow> 'v globals \<Rightarrow> OBNSignalToEPlus wakeup list \<Rightarrow>
     (OBNSignalToEPlus \<times> 'v globals \<times> OBNSignalToEPlus wakeup list) outcome" where
  "waitforOBNSignal timeout s ws =
     (if obn_signal_to_eplus s \<noteq> EPSIG_NONE
      then Returns (obn_signal_to_eplus s,
                    log_event (WaitOBNReturned (obn_signal_to_eplus s)) s, ws)
      else
        let timeout' = (if timeout \<le> 0 then default_obn_timeout s else timeout) in
        if timeout' \<le> 0
        then (case cond_wait EPSIG_NONE ws of
                None \<Rightarrow> Blocks
              | Some (v, ws') \<Rightarrow>
                  Returns (v, log_event (WaitOBNReturned v) (s\<lparr>obn_signal_to_eplus := v\<rparr>),
                           ws'))
        else (case cond_wait_for EPSIG_NONE ws of
                (Some v, ws') \<Rightarrow>
                  Returns (v, log_event (WaitOBNReturned v) (s\<lparr>obn_signal_to_eplus := v\<rparr>),
                           ws')
              | (None, ws') \<Rightarrow>
                  Returns (EPSIG_TIMEOUT, log_event (WaitOBNReturned EPSIG_TIMEOUT) s, ws')))"

definition setOBNTimeout :: "int \<Rightarrow> 'v globals \<Rightarrow> 'v globals" where
  "setOBNTimeout timeout s = s\<lparr>default_obn_timeout := timeout\<rparr>"

text \<open>
  \<^verbatim>\<open>postCallbackEvent\<close> of the node library, as far as this file is concerned: the event is
  appended to the queue of the node that \<open>obn_thread\<close> owns.
\<close>

definition postCallbackEvent :: "callback_event \<Rightarrow> 'v globals \<Rightarrow> 'v globals" where
  "postCallbackEvent ev s =
     s\<lparr>obn_thread :=
         map_option
           (\<lambda>th. th\<lparr>m_obnnode := (m_obnnode th)\<lparr>callback_queue :=
                                      callback_queue (m_obnnode th) @ [ev]\<rparr>\<rparr>)
           (obn_thread s)\<rparr>"

definition signalOBN :: "EPlusSignalToOBN \<Rightarrow> 'v globals \<Rightarrow> 'v globals" where
  "signalOBN sig s =
     (let s1 = log_event (SignalOBN sig) (s\<lparr>eplus_signal_to_obn := sig\<rparr>) in
      if sig \<noteq> OBNSIG_DONE \<and> obn_thread s1 \<noteq> None \<and> sig \<noteq> OBNSIG_NONE
      then postCallbackEvent HandleEPlusSignal s1
      else s1)"

section \<open>Stopping the node thread\<close>

text \<open>
  \<^verbatim>\<open>stopSimulation\<close> belongs to the node library; here it only leaves its mark in the log.
\<close>

definition stopSimulation :: "'v globals \<Rightarrow> 'v globals" where
  "stopSimulation s = log_event StopSimulation s"

text \<open>\<^verbatim>\<open>MQTTNodeEPlus::handleEPlusSignal\<close>: the signal is taken out of the mailbox.\<close>

definition handleEPlusSignal :: "'v globals \<Rightarrow> 'v globals" where
  "handleEPlusSignal s =
     (let sig = eplus_signal_to_obn s;
          s1 = s\<lparr>eplus_signal_to_obn := OBNSIG_NONE\<rparr>
      in case sig of
           OBNSIG_TERM \<Rightarrow> stopSimulation s1
         | OBNSIG_EXIT \<Rightarrow> stopSimulation s1
         | _ \<Rightarrow> s1)"

text \<open>
  \<^verbatim>\<open>m_thread.join()\<close> returns when the node thread has ended, and the node thread ends
  only after it has run the events posted to its queue: each queued
  \<^verbatim>\<open>handleEPlusSignal\<close> is run in order and the queue is left empty. Once the join has
  returned the thread is no longer joinable.
\<close>

definition run_callback_queue :: "'v globals \<Rightarrow> 'v globals" where
  "run_callback_queue s =
     (case obn_thread s of
        None \<Rightarrow> s
      | Some th \<Rightarrow>
          fold (\<lambda>ev. case ev of HandleEPlusSignal \<Rightarrow> handleEPlusSignal)
            (callback_queue (m_obnnode th))
            (s\<lparr>obn_thread := Some (th\<lparr>m_obnnode := (m_obnnode th)\<lparr>callback_queue := []\<rparr>\<rparr>)\<rparr>))"

definition join_thread :: "'v globals \<Rightarrow> 'v globals" where
  "join_thread s =
     (let s1 = run_callback_queue s in
      log_event ThreadJoined
        (s1\<lparr>obn_thread :=
              map_option (\<lambda>th. th\<lparr>m_thread_joinable := False\<rparr>) (obn_thread s1)\<rparr>))"

text \<open>
  \<^verbatim>\<open>EPlusOBNThread::stopThread\<close>, called through the pointer \<open>obn_thread\<close>. Through a null
  pointer the call reads \<^verbatim>\<open>m_thread\<close> of no object: that is the error value.
\<close>

definition stopThread :: "'v globals \<Rightarrow> 'v globals outcome" where
  "stopThread s =
     (case obn_thread s of
        None \<Rightarrow> Fails NullPointerDereference
      | Some th \<Rightarrow>
          if m_thread_joinable th
          then Returns (join_thread (signalOBN OBNSIG_EXIT s))
          else Returns s)"

text \<open>\<^verbatim>\<open>stopOBNNode\<close>: \<^verbatim>\<open>if (!obn_thread) { obn_thread->stopThread(); }\<close>.\<close>

definition stopOBNNode :: "'v globals \<Rightarrow> 'v globals outcome" where
  "stopOBNNode s = (if obn_thread s = None then stopThread s else Returns s)"

section \<open>Callbacks of the node thread\<close>

text \<open>
  The callbacks are members of the node that \<open>obn_thread\<close> owns, which is the only node object
  of the process; the assignment to its member \<^verbatim>\<open>_node_state\<close> goes through that pointer.
\<close>

definition set_node_state :: "node_state \<Rightarrow> 'v globals \<Rightarrow> 'v globals outcome" where
  "set_node_state st s =
     (case obn_thread s of
        None \<Rightarrow> Fails NullPointerDereference
      | Some th \<Rightarrow>
          Returns (log_event (SetNodeState st)
                     (s\<lparr>obn_thread := Some (th\<lparr>m_obnnode := (m_obnnode th)\<lparr>node_state := st\<rparr>\<rparr>)\<rparr>)))"

definition askEnergyPlusToQuit ::
  "'v globals \<Rightarrow> EPlusSignalToOBN wakeup list \<Rightarrow>
     ('v globals \<times> EPlusSignalToOBN wakeup list) outcome" where
  "askEnergyPlusToQuit s ws =
     and_then (waitforEPlusSignal (signalEPlus EPSIG_QUIT (resetEPlusSignal s)) ws)
       (\<lambda>(sig, s', ws'). Returns (s', ws'))"

text \<open>The four error callbacks; their arguments (port, message) are not used by the source.\<close>

definition onRawMessageError ::
  "'v globals \<Rightarrow> EPlusSignalToOBN wakeup list \<Rightarrow>
     ('v globals \<times> EPlusSignalToOBN wakeup list) outcome" where
  "onRawMessageError s ws =
     and_then (set_node_state NODE_ERROR s) (\<lambda>s1. askEnergyPlusToQuit s1 ws)"

definition onReadValueError ::
  "'v globals \<Rightarrow> EPlusSignalToOBN wakeup list \<Rightarrow>
     ('v globals \<times> EPlusSignalToOBN wakeup list) outcome" where
  "onReadValueError s ws =
     and_then (set_node_state NODE_ERROR s) (\<lambda>s1. askEnergyPlusToQuit s1 ws)"

definition onSendMessageError ::
  "'v globals \<Rightarrow> EPlusSignalToOBN wakeup list \<Rightarrow>
     ('v globals \<times> EPlusSignalToOBN wakeup list) outcome" where
  "onSendMessageError s ws =
     and_then (set_node_state NODE_ERROR s) (\<lambda>s1. askEnergyPlusToQuit s1 ws)"

definition onOBNError ::
  "'v globals \<Rightarrow> EPlusSignalToOBN wakeup list \<Rightarrow>
     ('v globals \<times> EPlusSignalToOBN wakeup list) outcome" where
  "onOBNError s ws =
     and_then (set_node_state NODE_ERROR s) (\<lambda>s1. askEnergyPlusToQuit s1 ws)"

definition onUpdateY ::
  "'v globals \<Rightarrow> EPlusSignalToOBN wakeup list \<Rightarrow>
     ('v globals \<times> EPlusSignalToOBN wakeup list) outcome" where
  "onUpdateY s ws =
     and_then (waitforEPlusSignal (signalEPlus EPSIG_Y s) ws)
       (\<lambda>(sig, s1, ws1).
          if sig = OBNSIG_DONE then Returns (resetEPlusSignal s1, ws1) else Returns (s1, ws1))"

definition onUpdateX ::
  "'v globals \<Rightarrow> EPlusSignalToOBN wakeup list \<Rightarrow>
     ('v globals \<times> EPlusSignalToOBN wakeup list) outcome" where
  "onUpdateX s ws =
     and_then (waitforEPlusSignal (signalEPlus EPSIG_X s) ws)
       (\<lambda>(sig, s1, ws1).
          if sig = OBNSIG_DONE then Returns (resetEPlusSignal s1, ws1) else Returns (s1, ws1))"

definition onInitialization ::
  "'v globals \<Rightarrow> EPlusSignalToOBN wakeup list \<Rightarrow>
     ('v globals \<times> EPlusSignalToOBN wakeup list) outcome" where
  "onInitialization s ws =
     and_then (waitforEPlusSignal (signalEPlus EPSIG_START s) ws)
       (\<lambda>(sig, s1, ws1).
          if sig = OBNSIG_DONE then Returns (resetEPlusSignal s1, ws1) else Returns (s1, ws1))"

definition onTermination :: "'v globals \<Rightarrow> 'v globals" where
  "onTermination s = signalEPlus EPSIG_TERM s"

section \<open>The exchange gateway\<close>

definition NDBLMAX :: nat where
  "NDBLMAX = 1024"

text \<open>
  The conversions the calls make between \<^verbatim>\<open>int\<close> (32 bits, two's complement) and
  \<^verbatim>\<open>std::size_t\<close> (64 bits), with the wrap-around written out.
\<close>

definition size_t_of_int :: "int \<Rightarrow> nat" where
  "size_t_of_int i = nat (i mod 2 ^ 64)"

definition int_of_size_t :: "nat \<Rightarrow> int" where
  "int_of_size_t n =
     (let m = int n mod 2 ^ 32 in if m < 2 ^ 31 then m else m - 2 ^ 32)"

text \<open>\<^verbatim>\<open>std::copy_n(src, n, dst)\<close> on arrays that hold at least \<open>n\<close> elements.\<close>

definition copy_n :: "'v list \<Rightarrow> nat \<Rightarrow> 'v list \<Rightarrow> 'v list" where
  "copy_n src n dst = take n src @ drop n dst"

text \<open>
  The port holds \<^verbatim>\<open>double\<close>s of 8 bytes each, so a count whose bytes do not fit the 64-bit
  address space is one that no resize can reach.
\<close>

definition max_doubles :: nat where
  "max_doubles = 2 ^ 61 - 1"

text \<open>
  \<^verbatim>\<open>setOutputValues(nDbl, dblVals)\<close>, called as \<^verbatim>\<open>obn_thread->m_obnnode.setOutputValues\<close>: the
  output port is resized to \<open>nDbl\<close> and filled from the caller's array (which holds at least
  \<open>nDbl\<close> values); the result is \<open>nDbl\<close> converted to \<^verbatim>\<open>int\<close>. The resize throws for a
  count above \<open>max_doubles\<close>, and the exception leaves the function before anything
  else is done; for the other counts the memory is taken to be there.
\<close>

definition setOutputValues ::
  "nat \<Rightarrow> 'v list \<Rightarrow> 'v globals \<Rightarrow> (int \<times> 'v globals) outcome" where
  "setOutputValues nDbl dblVals s =
     (case obn_thread s of
        None \<Rightarrow> Fails NullPointerDereference
      | Some th \<Rightarrow>
          if nDbl > max_doubles then Fails AllocationFailure
          else
            let v = (if nDbl > 0 then copy_n dblVals nDbl [] else []) in
            Returns (int_of_size_t nDbl,
                     log_event (SetOutputValues nDbl)
                       (s\<lparr>obn_thread :=
                            Some (th\<lparr>m_obnnode := (m_obnnode th)\<lparr>m_double_output := v\<rparr>\<rparr>)\<rparr>)))"

text \<open>The caller's arrays and out-parameters of the gateway.\<close>

record 'v exchange_args =
  flaWri :: int
  nDblWri :: int
  dblValWri :: "'v list"

record 'v exchange_bufs =
  flaRea :: int
  nDblRea :: int
  simTimRea :: 'v
  dblValRea :: "'v list"

definition getInputValues ::
  "'v exchange_bufs \<Rightarrow> 'v globals \<Rightarrow> (int \<times> 'v exchange_bufs \<times> 'v globals) outcome" where
  "getInputValues b s =
     (case obn_thread s of
        None \<Rightarrow> Fails NullPointerDereference
      | Some th \<Rightarrow>
          let b0 = b\<lparr>nDblRea := 0\<rparr>;
              la = m_double_input (m_obnnode th);
              sz = length la
          in if sz > NDBLMAX
             then Returns (- 1, b0, log_event (GetInputValues (- 1)) s)
             else
               let b1 = b0\<lparr>nDblRea := int_of_size_t sz\<rparr>;
                   b2 = (if sz > 0 then b1\<lparr>dblValRea := copy_n la sz (dblValRea b1)\<rparr> else b1)
               in Returns (0, b2, log_event (GetInputValues 0) s))"

text \<open>\<^verbatim>\<open>processOBNSignal(sig, flaRea)\<close>: the status and the new value of \<^verbatim>\<open>*flaRea\<close>.\<close>

definition processOBNSignal :: "OBNSignalToEPlus \<Rightarrow> int \<Rightarrow> int \<times> int" where
  "processOBNSignal sig fla =
     (case sig of
        EPSIG_TERM \<Rightarrow> (0, 1)
      | EPSIG_QUIT \<Rightarrow> (0, - 1)
      | EPSIG_TIMEOUT \<Rightarrow> (- 21, fla)
      | _ \<Rightarrow> (- 22, fla))"

text \<open>
  \<^verbatim>\<open>exchangedoublewithOBN\<close>. Two values come from outside this file and are parameters:
  \<open>dflt\<close>, the default argument of \<^verbatim>\<open>waitforOBNSignal\<close> that the header declares (the gateway
  calls it without an argument), and \<open>now\<close>, what the node library's
  \<^verbatim>\<open>currentSimulationTime\<close> returns. \<open>ws\<close> is what the node thread posts while the
  engine waits; what is left of it is returned.
\<close>

definition exchangedoublewithOBN ::
  "int \<Rightarrow> 'v \<Rightarrow> 'v exchange_args \<Rightarrow> 'v exchange_bufs \<Rightarrow> 'v globals \<Rightarrow>
     OBNSignalToEPlus wakeup list \<Rightarrow>
     (int \<times> 'v exchange_bufs \<times> 'v globals \<times> OBNSignalToEPlus wakeup list) outcome" where
  "exchangedoublewithOBN dflt now a b s ws =
     (let b0 = b\<lparr>flaRea := 0\<rparr> in
      if obn_thread s = None then Returns (- 1, b0, s, ws)
      else
        and_then (waitforOBNSignal dflt s ws) (\<lambda>(sig, s1, ws1).
          let s2 = resetOBNSignal s1 in
          if sig \<noteq> EPSIG_Y
          then (let (r, f) = processOBNSignal sig (flaRea b0)
                in Returns (r, b0\<lparr>flaRea := f\<rparr>, s2, ws1))
          else
            and_then (setOutputValues (size_t_of_int (nDblWri a)) (dblValWri a) s2)
              (\<lambda>(retVal, s3).
                 let s4 = signalOBN OBNSIG_DONE s3 in
                 if retVal \<ge> 0
                 then
                   and_then (waitforOBNSignal dflt s4 ws1) (\<lambda>(sig', s5, ws2).
                     let s6 = resetOBNSignal s5 in
                     if sig' \<noteq> EPSIG_X
                     then (let (r, f) = processOBNSignal sig' (flaRea b0)
                           in Returns (r, b0\<lparr>flaRea := f\<rparr>, s6, ws2))
                     else
                       and_then (getInputValues b0 s6) (\<lambda>(retVal', b1, s7).
                         let b2 = b1\<lparr>simTimRea := now\<rparr>;
                             s8 = signalOBN OBNSIG_DONE s7
                         in Returns (retVal', b2, s8, ws2)))
                 else Returns (retVal, b0, s4, ws1))))"

text \<open>
  The engine's simulation loop calls the gateway once per step, one call at a time; a run of
  steps is the calls made one after the other on the same state, out-parameters and
  stream of node posts. The statuses are returned in call order.
\<close>

fun exchange_steps ::
  "int \<Rightarrow> ('v \<times> 'v exchange_args) list \<Rightarrow> 'v exchange_bufs \<Rightarrow> 'v globals \<Rightarrow>
     OBNSignalToEPlus wakeup list \<Rightarrow>
     (int list \<times> 'v exchange_bufs \<times> 'v globals \<times> OBNSignalToEPlus wakeup list) outcome" where
  "exchange_steps dflt [] b s ws = Returns ([], b, s, ws)"
| "exchange_steps dflt ((now, a) # cs) b s ws =
     and_then (exchangedoublewithOBN dflt now a b s ws) (\<lambda>(r, b', s', ws').
       and_then (exchange_steps dflt cs b' s' ws') (\<lambda>(rs, b'', s'', ws'').
         Returns (r # rs, b'', s'', ws'')))"

text \<open>
  Normal operation of a run of steps, read off the engine's waits: every wait returns, the
  first wait of a step with UPDATE_Y or with the node's TERMINATE or QUIT, the second with
  UPDATE_X, TERMINATE or QUIT (anything else is an error or a timeout), and the engine
  passes a non-negative \<^verbatim>\<open>int\<close> as output count. A wait reads nothing of the state but
  the mailbox and the default timeout, so the run is followed on the states the waits and
  resets alone produce.
\<close>

fun normal_steps ::
  "int \<Rightarrow> ('v \<times> 'v exchange_args) list \<Rightarrow> 'v globals \<Rightarrow> OBNSignalToEPlus wakeup list \<Rightarrow> bool"
  where
  "normal_steps dflt [] s ws = True"
| "normal_steps dflt ((now, a) # cs) s ws =
     (case waitforOBNSignal dflt s ws of
        Returns (sig, s1, ws1) \<Rightarrow>
          if sig = EPSIG_Y
          then 0 \<le> nDblWri a \<and> nDblWri a < 2 ^ 31 \<and>
               (case waitforOBNSignal dflt (resetOBNSignal s1) ws1 of
                  Returns (sig', s2, ws2) \<Rightarrow>
                    (sig' = EPSIG_X \<or> sig' = EPSIG_TERM \<or> sig' = EPSIG_QUIT) \<and>
                    normal_steps dflt cs (resetOBNSignal s2) ws2
                | Blocks \<Rightarrow> False
                | Fails e \<Rightarrow> False)
          else (sig = EPSIG_TERM \<or> sig = EPSIG_QUIT) \<and>
               normal_steps dflt cs (resetOBNSignal s1) ws1
      | Blocks \<Rightarrow> False
      | Fails e \<Rightarrow> False)"

section \<open>Start-up: reading the configuration\<close>

text \<open>The initial values the source gives the namespace-level variables.\<close>

definition initial_globals :: "'v globals" where [code_unfold]:
  "initial_globals =
     \<lparr>quitIfOBNTerminates = False, default_obn_timeout = - 1,
      eplus_signal_to_obn = OBNSIG_NONE, obn_signal_to_eplus = EPSIG_NONE,
      obn_thread = None, history = []\<rparr>"

text \<open>
  Modelled from the spec: what the base-class constructor of the node library leaves in the
  fields kept here (lifecycle state NORMAL, empty ports, no server address, no pending
  event). The name and the workspace are the constructor's arguments, as in the source; the
  thread member of a new \<^verbatim>\<open>EPlusOBNThread\<close> is not joinable.
\<close>

definition MQTTNodeEPlus_new :: "string \<Rightarrow> string \<Rightarrow> 'v MQTTNodeEPlus" where
  "MQTTNodeEPlus_new name ws =
     \<lparr>t_name = name, t_ws = ws, server_address = None, node_state = NODE_NORMAL,
      m_double_input = [], m_double_output = [], callback_queue = []\<rparr>"

definition EPlusOBNThread_new :: "string \<Rightarrow> string \<Rightarrow> 'v EPlusOBNThread" where
  "EPlusOBNThread_new name ws =
     \<lparr>m_thread_joinable = False, m_obnnode = MQTTNodeEPlus_new name ws\<rparr>"

text \<open>
  What start-up takes from outside this file: the file system (\<open>None\<close> for a file that
  cannot be opened), the node library's name check and the results of its three set-up
  calls.
\<close>

record init_env =
  file_content :: "string \<Rightarrow> string option"
  isValidNodeName :: "string \<Rightarrow> bool"
  openSMNPort :: bool
  addInput :: bool
  addOutput :: bool

text \<open>\<^verbatim>\<open>std::string\<close> searches: the position of the first character (not) among \<open>chars\<close>.\<close>

fun find_first_of :: "string \<Rightarrow> string \<Rightarrow> nat option" where
  "find_first_of chars [] = None"
| "find_first_of chars (c # cs) =
     (if c \<in> set chars then Some 0 else map_option Suc (find_first_of chars cs))"

fun find_first_not_of :: "string \<Rightarrow> string \<Rightarrow> nat option" where
  "find_first_not_of chars [] = None"
| "find_first_not_of chars (c # cs) =
     (if c \<notin> set chars then Some 0 else map_option Suc (find_first_not_of chars cs))"

definition find_first_not_of_from :: "string \<Rightarrow> string \<Rightarrow> nat \<Rightarrow> nat option" where
  "find_first_not_of_from chars str pos =
     map_option (\<lambda>i. i + pos) (find_first_not_of chars (drop pos str))"

definition spacechars :: string where
  "spacechars = [CHR '' '', CHR 0x09]"

definition newline :: char where
  "newline = CHR 0x0A"

text \<open>
  Modelled from the spec: \<^verbatim>\<open>OBNsim::Utils::trim\<close> and \<^verbatim>\<open>OBNsim::Utils::toLower\<close> of the node
  library, which the spec calls trimming and lower-casing: white space is removed at both
  ends, and the letters A to Z are replaced by a to z.
\<close>

definition whitespace :: string where
  "whitespace = [CHR '' '', CHR 0x09, CHR 0x0A, CHR 0x0B, CHR 0x0C, CHR 0x0D]"

definition trim :: "string \<Rightarrow> string" where
  "trim str =
     rev (dropWhile (\<lambda>c. c \<in> set whitespace) (rev (dropWhile (\<lambda>c. c \<in> set whitespace) str)))"

definition toLower :: "string \<Rightarrow> string" where
  "toLower str =
     map (\<lambda>c. case map_of (zip ''ABCDEFGHIJKLMNOPQRSTUVWXYZ'' ''abcdefghijklmnopqrstuvwxyz'') c of
                None \<Rightarrow> c | Some l \<Rightarrow> l) str"

text \<open>
  The C library's \<^verbatim>\<open>atoi\<close>, which is \<^verbatim>\<open>strtol\<close> in base 10 converted to \<^verbatim>\<open>int\<close>: leading
  white space, an optional sign, then decimal digits up to the first other character; a
  value outside the range of \<^verbatim>\<open>long\<close> (64 bits) is replaced by the nearest bound, and the
  conversion to \<^verbatim>\<open>int\<close> (32 bits) wraps around.
\<close>

definition digit_value :: "char \<Rightarrow> int option" where
  "digit_value c = map_of (zip ''0123456789'' [0, 1, 2, 3, 4, 5, 6, 7, 8, 9]) c"

fun digits_value :: "int \<Rightarrow> string \<Rightarrow> int" where
  "digits_value acc [] = acc"
| "digits_value acc (c # cs) =
     (case digit_value c of None \<Rightarrow> acc | Some d \<Rightarrow> digits_value (10 * acc + d) cs)"

definition strtol :: "string \<Rightarrow> int" where
  "strtol str =
     (let v = (case dropWhile (\<lambda>c. c \<in> set whitespace) str of
                 [] \<Rightarrow> 0
               | c # cs \<Rightarrow>
                   if c = CHR ''-'' then - digits_value 0 cs
                   else if c = CHR ''+'' then digits_value 0 cs
                   else digits_value 0 (c # cs))
      in max (- (2 ^ 63)) (min (2 ^ 63 - 1) v))"

definition int_of_long :: "int \<Rightarrow> int" where
  "int_of_long l = (l + 2 ^ 31) mod 2 ^ 32 - 2 ^ 31"

definition atoi :: "string \<Rightarrow> int" where
  "atoi str = int_of_long (strtol str)"

text \<open>
  The \<^verbatim>\<open>std::ifstream\<close> once opened: the characters not yet read and the state flags, which
  on a file that reads without I/O errors are one of \<^verbatim>\<open>goodbit\<close>, \<^verbatim>\<open>eofbit\<close> and
  \<^verbatim>\<open>eofbit|failbit\<close>.
\<close>

datatype iostate = Good | EofOnly | EofFail

record ifstream =
  content :: string
  state :: iostate

text \<open>
  \<^verbatim>\<open>std::getline(configfile, oneline)\<close>: the line read, or \<open>None\<close> when \<^verbatim>\<open>fail()\<close> holds
  afterwards. On a stream that is not good the sentry sets \<^verbatim>\<open>failbit\<close>; otherwise characters
  are taken up to a newline (consumed, not stored) or the end of the file (\<^verbatim>\<open>eofbit\<close>), and
  \<^verbatim>\<open>failbit\<close> is set if nothing at all was taken.
\<close>

definition getline :: "ifstream \<Rightarrow> ifstream \<times> string option" where
  "getline f =
     (case state f of
        Good \<Rightarrow>
          (let line = takeWhile (\<lambda>c. c \<noteq> newline) (content f) in
           case dropWhile (\<lambda>c. c \<noteq> newline) (content f) of
             [] \<Rightarrow>
               if line = [] then (f\<lparr>content := [], state := EofFail\<rparr>, None)
               else (f\<lparr>content := [], state := EofOnly\<rparr>, Some line)
           | nl # rest \<Rightarrow> (f\<lparr>content := rest\<rparr>, Some line))
      | EofOnly \<Rightarrow> (f\<lparr>state := EofFail\<rparr>, None)
      | EofFail \<Rightarrow> (f, None))"

text \<open>
  Lines one and two are taken apart by the same code: the first word, and what follows the
  blanks after it (empty if nothing does).
\<close>

definition split_word :: "string \<Rightarrow> string \<times> string" where
  "split_word oneline =
     (case find_first_of spacechars oneline of
        None \<Rightarrow> (oneline, [])
      | Some pos \<Rightarrow>
          (take pos oneline,
           case find_first_not_of_from spacechars oneline pos of
             None \<Rightarrow> []
           | Some pos' \<Rightarrow> drop pos' oneline))"

text \<open>The body of the loop over the optional lines, for a line that was read.\<close>

definition option_line :: "string \<Rightarrow> 'v globals \<Rightarrow> 'v globals" where
  "option_line oneline s =
     (let (theOption, theRest) =
            (case find_first_of spacechars oneline of
               None \<Rightarrow> (oneline, [])
             | Some pos \<Rightarrow>
                 (take pos oneline,
                  if length oneline \<ge> pos + 2 then trim (drop (pos + 1) oneline) else []));
          theOption' = toLower (trim theOption)
      in if theOption' = ''quitifobnstops'' then s\<lparr>quitIfOBNTerminates := True\<rparr>
         else if theOption' = ''timeout''
         then (if theRest \<noteq> [] then setOBNTimeout (atoi theRest) s else s)
         else s)"

text \<open>\<^verbatim>\<open>while (success && !configfile.eof())\<close>; every pass ends with \<^verbatim>\<open>success = true\<close>.\<close>

function option_lines :: "bool \<Rightarrow> ifstream \<Rightarrow> 'v globals \<Rightarrow> bool \<times> ifstream \<times> 'v globals" where
  "option_lines success f s =
     (if success \<and> state f = Good
      then (case getline f of
              (f', None) \<Rightarrow> option_lines True f' s
            | (f', Some oneline) \<Rightarrow> option_lines True f' (option_line oneline s))
      else (success, f, s))"
  by pat_completeness auto
termination
  apply (relation "measure (\<lambda>(success, f, s).
                     length (content f) + (if state f = Good then 1 else 0))")
    apply simp
   apply (auto simp: getline_def Let_def split: list.splits if_splits)[1]
  subgoal for success f s x f' oneline
    using length_dropWhile_le [of "\<lambda>c. c \<noteq> newline" "content f"]
    by (auto simp: getline_def Let_def split: list.splits if_splits)
  done

declare option_lines.simps [simp del]

text \<open>The string variables that the configuration fills.\<close>

record config_vars =
  node_name :: string
  workspace :: string
  comm :: string
  comm_config :: string

text \<open>
  Reading the file: \<open>success\<close>, the four strings and the process-wide options as they are
  when the source reaches \<^verbatim>\<open>if (!success)\<close>.
\<close>

definition read_config :: "string option \<Rightarrow> 'v globals \<Rightarrow> bool \<times> config_vars \<times> 'v globals" where
  "read_config file s =
     (let vars = \<lparr>node_name = [], workspace = [], comm = [], comm_config = []\<rparr> in
      case file of
        None \<Rightarrow> (False, vars, s)
      | Some text \<Rightarrow>
          (case getline \<lparr>content = text, state = Good\<rparr> of
             (f1, None) \<Rightarrow> (False, vars, s)
           | (f1, Some line1) \<Rightarrow>
               let vars1 = vars\<lparr>comm := fst (split_word line1),
                                comm_config := snd (split_word line1)\<rparr> in
               (case getline f1 of
                  (f2, None) \<Rightarrow> (False, vars1, s)
                | (f2, Some line2) \<Rightarrow>
                    let vars2 = vars1\<lparr>node_name := fst (split_word line2),
                                      workspace := snd (split_word line2)\<rparr>;
                        (success, f3, s') = option_lines True f2 s
                    in (success, vars2, s'))))"

text \<open>\<^verbatim>\<open>MQTTNodeEPlus::initialize\<close> and \<^verbatim>\<open>EPlusOBNThread::startThread\<close>.\<close>

definition initialize :: "init_env \<Rightarrow> bool" where
  "initialize env = (if \<not> openSMNPort env then False else addInput env \<and> addOutput env)"

definition startThread :: "init_env \<Rightarrow> 'v EPlusOBNThread \<Rightarrow> bool \<times> 'v EPlusOBNThread" where
  "startThread env th =
     (if m_thread_joinable th then (False, th)
      else if \<not> initialize env then (False, th)
      else (True, th\<lparr>m_thread_joinable := True\<rparr>))"

text \<open>\<^verbatim>\<open>initOBNNode(docname)\<close>; \<open>None\<close> is a null \<^verbatim>\<open>docname\<close>.\<close>

definition initOBNNode :: "init_env \<Rightarrow> string option \<Rightarrow> 'v globals \<Rightarrow> bool \<times> 'v globals" where
  "initOBNNode env docname s =
     (case docname of
        None \<Rightarrow> (False, s)
      | Some path \<Rightarrow>
          if obn_thread s = None
          then
            (let (success, vars, s1) = read_config (file_content env path) s in
             if \<not> success then (False, s1)
             else
               let comm' = toLower (trim (comm vars));
                   node_name' = trim (node_name vars)
               in if comm' = ''mqtt''
                  then
                    if \<not> isValidNodeName env node_name' then (False, s1)
                    else
                      let th = EPlusOBNThread_new node_name' (workspace vars);
                          comm_config' = trim (comm_config vars);
                          th1 = (if comm_config' \<noteq> []
                                 then th\<lparr>m_obnnode :=
                                           (m_obnnode th)\<lparr>server_address := Some comm_config'\<rparr>\<rparr>
                                 else th);
                          (started, th2) = startThread env th1
                      in (started, s1\<lparr>obn_thread := Some th2\<rparr>)
                  else (False, s1))
          else (True, s))"

text \<open>
  The names the configuration scenario uses: the first line of the file and, taken from it
  as the source does, the transport selector, trimmed and lower-cased.
\<close>

definition first_line :: "string \<Rightarrow> string" where
  "first_line text = takeWhile (\<lambda>c. c \<noteq> newline) text"

definition transport_selector :: "string \<Rightarrow> string" where
  "transport_selector text = toLower (trim (fst (split_word (first_line text))))"

section \<open>Reading the log; a running session\<close>

text \<open>
  The number of calls of \<^verbatim>\<open>setOutputValues\<close> in a stretch of the log, the number of times
  a wait of the engine returned UPDATE_Y, and whether every call of \<^verbatim>\<open>setOutputValues\<close>
  is followed at once by the post of DONE.
\<close>

fun is_SetOutputValues :: "event \<Rightarrow> bool" where
  "is_SetOutputValues (SetOutputValues n) = True"
| "is_SetOutputValues e = False"

definition outputs_published :: "event list \<Rightarrow> nat" where
  "outputs_published evs = length (filter is_SetOutputValues evs)"

definition update_y_observed :: "event list \<Rightarrow> nat" where
  "update_y_observed evs = length (filter (\<lambda>e. e = WaitOBNReturned EPSIG_Y) evs)"

fun published_then_done :: "event list \<Rightarrow> bool" where
  "published_then_done [] = True"
| "published_then_done (e # es) =
     ((if is_SetOutputValues e then take 1 es = [SignalOBN OBNSIG_DONE] else True) \<and>
      published_then_done es)"

text \<open>
  A state to run examples in: the initial values, with a node named \<open>node1\<close> whose thread
  is running and whose input port holds \<open>inp\<close>.
\<close>

definition running_session :: "nat list \<Rightarrow> nat globals" where
  "running_session inp =
     initial_globals\<lparr>obn_thread :=
       Some \<lparr>m_thread_joinable = True,
             m_obnnode = (MQTTNodeEPlus_new ''node1'' ''myworkspace'')\<lparr>m_double_input := inp\<rparr>\<rparr>\<rparr>"

section \<open>Results\<close>

subsection \<open>Stopping\<close>

lemma stopThread_running:
  "obn_thread s = Some th \<Longrightarrow> m_thread_joinable th \<Longrightarrow> callback_queue (m_obnnode th) = [] \<Longrightarrow>
   \<exists>s'. stopThread s = Returns s' \<and>
        history s' = history s @ [SignalOBN OBNSIG_EXIT, StopSimulation, ThreadJoined] \<and>
        eplus_signal_to_obn s' = OBNSIG_NONE \<and>
        map_option m_thread_joinable (obn_thread s') = Some False \<and>
        map_option (\<lambda>t. callback_queue (m_obnnode t)) (obn_thread s') = Some []"
  by (simp add: stopThread_def join_thread_def run_callback_queue_def handleEPlusSignal_def
      stopSimulation_def signalOBN_def postCallbackEvent_def log_event_def Let_def)

text \<open>
  C4. With a node thread created and running, \<^verbatim>\<open>stopOBNNode\<close> should post EXIT and join the
  thread. The guard of \<^verbatim>\<open>stopOBNNode\<close> is inverted, so with a non-null \<open>obn_thread\<close> it
  returns at once: the state is unchanged, no EXIT is posted and the thread stays joinable.
\<close>

theorem stopOBNNode_running_does_nothing:
  "stopOBNNode (s\<lparr>obn_thread := Some (th\<lparr>m_thread_joinable := True\<rparr>)\<rparr>) =
     Returns (s\<lparr>obn_thread := Some (th\<lparr>m_thread_joinable := True\<rparr>)\<rparr>)"
  by (simp add: stopOBNNode_def)

text \<open>
  C9. With no node thread ever created (\<open>obn_thread\<close> null), \<^verbatim>\<open>stopOBNNode\<close> should be a
  no-op. The inverted guard makes exactly this case call \<^verbatim>\<open>stopThread\<close> through the null
  pointer.
\<close>

theorem stopOBNNode_null_dereferences:
  "stopOBNNode (s\<lparr>obn_thread := None\<rparr>) = Fails NullPointerDereference"
  by (simp add: stopOBNNode_def stopThread_def)


subsection \<open>Waiting on the node-to-engine mailbox\<close>

lemma cond_wait_skip:
  "set pre \<subseteq> {Notified none, Elapsed} \<Longrightarrow> cond_wait none (pre @ ws) = cond_wait none ws"
  by (induction pre) auto

lemma cond_wait_for_skip:
  "set pre \<subseteq> {Notified none} \<Longrightarrow> cond_wait_for none (pre @ ws) = cond_wait_for none ws"
  by (induction pre) auto

lemma cond_wait_Some:
  "cond_wait none ws = Some (v, ws') \<Longrightarrow> v \<noteq> none \<and> Notified v \<in> set ws"
  by (induction none ws rule: cond_wait.induct) (auto split: if_splits)

lemma cond_wait_None_iff:
  "cond_wait none ws = None \<longleftrightarrow> (\<forall>v. Notified v \<in> set ws \<longrightarrow> v = none)"
  by (induction none ws rule: cond_wait.induct) auto

text \<open>
  C3, as the claim has it, fails: a non-positive argument does not make the wait
  indefinite when the process-wide default is positive. With argument 0, default 5 and a
  silent node the call returns the synthetic TIMEOUT.
\<close>

theorem waitforOBNSignal_nonpositive_argument_times_out:
  "waitforOBNSignal 0 ((initial_globals :: nat globals)\<lparr>default_obn_timeout := 5\<rparr>) [] =
     Returns (EPSIG_TIMEOUT,
              initial_globals\<lparr>default_obn_timeout := 5,
                              history := [WaitOBNReturned EPSIG_TIMEOUT]\<rparr>, [])"
  by (simp add: waitforOBNSignal_def initial_globals_def log_event_def)

text \<open>
  C3, amended. Let \<open>e\<close> be the timeout in force: the argument if it is positive, the
  process-wide default otherwise. A signal already in the mailbox is returned at once. With
  the mailbox empty: a signal other than NONE that is posted before the timer expires is
  returned, whatever \<open>e\<close> is; if \<open>e \<le> 0\<close> the wait is indefinite, so the call returns only a
  signal that was really posted (never the synthetic TIMEOUT) and never returns if none is;
  if \<open>e > 0\<close> and the timer expires first, or nothing is ever posted, TIMEOUT is returned
  and the mailbox stays empty.
\<close>

theorem waitforOBNSignal_effective_timeout:
  fixes s :: "'v globals"
  assumes e: "e = (if t \<le> 0 then default_obn_timeout s else t)"
  shows
    "(obn_signal_to_eplus s \<noteq> EPSIG_NONE \<longrightarrow>
        waitforOBNSignal t s ws =
          Returns (obn_signal_to_eplus s,
                   log_event (WaitOBNReturned (obn_signal_to_eplus s)) s, ws)) \<and>
     (obn_signal_to_eplus s = EPSIG_NONE \<and>
      ws = pre @ Notified v # rest \<and> v \<noteq> EPSIG_NONE \<and> set pre \<subseteq> {Notified EPSIG_NONE} \<longrightarrow>
        waitforOBNSignal t s ws =
          Returns (v, log_event (WaitOBNReturned v) (s\<lparr>obn_signal_to_eplus := v\<rparr>), rest)) \<and>
     (obn_signal_to_eplus s = EPSIG_NONE \<and> e \<le> 0 \<and>
      waitforOBNSignal t s ws = Returns (v', s', ws') \<longrightarrow>
        v' \<noteq> EPSIG_NONE \<and> Notified v' \<in> set ws \<and> obn_signal_to_eplus s' = v') \<and>
     (obn_signal_to_eplus s = EPSIG_NONE \<and> e \<le> 0 \<and>
      (\<forall>u. Notified u \<in> set ws \<longrightarrow> u = EPSIG_NONE) \<longrightarrow>
        waitforOBNSignal t s ws = Blocks) \<and>
     (obn_signal_to_eplus s = EPSIG_NONE \<and> 0 < e \<and>
      (ws = pre' @ Elapsed # rest' \<or> ws = pre' \<and> rest' = []) \<and>
      set pre' \<subseteq> {Notified EPSIG_NONE} \<longrightarrow>
        waitforOBNSignal t s ws =
          Returns (EPSIG_TIMEOUT, log_event (WaitOBNReturned EPSIG_TIMEOUT) s, rest'))"
proof (intro conjI impI)
  assume "obn_signal_to_eplus s \<noteq> EPSIG_NONE"
  then show "waitforOBNSignal t s ws =
          Returns (obn_signal_to_eplus s,
                   log_event (WaitOBNReturned (obn_signal_to_eplus s)) s, ws)"
    by (simp add: waitforOBNSignal_def)
next
  assume h: "obn_signal_to_eplus s = EPSIG_NONE \<and>
      ws = pre @ Notified v # rest \<and> v \<noteq> EPSIG_NONE \<and> set pre \<subseteq> {Notified EPSIG_NONE}"
  then have 1: "cond_wait EPSIG_NONE ws = Some (v, rest)"
    using cond_wait_skip [of pre EPSIG_NONE "Notified v # rest"] by auto
  from h have 2: "cond_wait_for EPSIG_NONE ws = (Some v, rest)"
    using cond_wait_for_skip [of pre EPSIG_NONE "Notified v # rest"] by auto
  show "waitforOBNSignal t s ws =
          Returns (v, log_event (WaitOBNReturned v) (s\<lparr>obn_signal_to_eplus := v\<rparr>), rest)"
    using h 1 2 by (simp add: waitforOBNSignal_def Let_def)
next
  assume h: "obn_signal_to_eplus s = EPSIG_NONE \<and> e \<le> 0 \<and>
      waitforOBNSignal t s ws = Returns (v', s', ws')"
  with e obtain "cond_wait EPSIG_NONE ws = Some (v', ws')"
    and s': "s' = log_event (WaitOBNReturned v') (s\<lparr>obn_signal_to_eplus := v'\<rparr>)"
    by (auto simp: waitforOBNSignal_def Let_def split: option.splits if_splits)
  then show "v' \<noteq> EPSIG_NONE" and "Notified v' \<in> set ws" and "obn_signal_to_eplus s' = v'"
    using cond_wait_Some [of EPSIG_NONE ws v' ws'] by (auto simp: log_event_def)
next
  assume h: "obn_signal_to_eplus s = EPSIG_NONE \<and> e \<le> 0 \<and>
      (\<forall>u. Notified u \<in> set ws \<longrightarrow> u = EPSIG_NONE)"
  then have "cond_wait EPSIG_NONE ws = None" by (simp add: cond_wait_None_iff)
  with h e show "waitforOBNSignal t s ws = Blocks"
    by (auto simp: waitforOBNSignal_def Let_def)
next
  assume h: "obn_signal_to_eplus s = EPSIG_NONE \<and> 0 < e \<and>
      (ws = pre' @ Elapsed # rest' \<or> ws = pre' \<and> rest' = []) \<and>
      set pre' \<subseteq> {Notified EPSIG_NONE}"
  then have "cond_wait_for EPSIG_NONE ws = (None, rest')"
    using cond_wait_for_skip [of pre' EPSIG_NONE "Elapsed # rest'"]
      cond_wait_for_skip [of pre' EPSIG_NONE "[]"] by auto
  with h e show "waitforOBNSignal t s ws =
          Returns (EPSIG_TIMEOUT, log_event (WaitOBNReturned EPSIG_TIMEOUT) s, rest')"
    by (auto simp: waitforOBNSignal_def Let_def)
qed

theorem waitforOBNSignal_effective_timeout_witness:
  "waitforOBNSignal 3 ((initial_globals :: nat globals)\<lparr>obn_signal_to_eplus := EPSIG_Y\<rparr>) [] =
     Returns (EPSIG_Y,
              initial_globals\<lparr>obn_signal_to_eplus := EPSIG_Y,
                              history := [WaitOBNReturned EPSIG_Y]\<rparr>, []) \<and>
   waitforOBNSignal 0 (initial_globals :: nat globals)
       [Notified EPSIG_NONE, Notified EPSIG_X, Elapsed] =
     Returns (EPSIG_X,
              initial_globals\<lparr>obn_signal_to_eplus := EPSIG_X,
                              history := [WaitOBNReturned EPSIG_X]\<rparr>, [Elapsed]) \<and>
   waitforOBNSignal 0 (initial_globals :: nat globals) [Elapsed, Notified EPSIG_NONE] = Blocks \<and>
   waitforOBNSignal 0 ((initial_globals :: nat globals)\<lparr>default_obn_timeout := 5\<rparr>)
       [Notified EPSIG_NONE, Elapsed, Notified EPSIG_Y] =
     Returns (EPSIG_TIMEOUT,
              initial_globals\<lparr>default_obn_timeout := 5,
                              history := [WaitOBNReturned EPSIG_TIMEOUT]\<rparr>, [Notified EPSIG_Y])"
  using
    waitforOBNSignal_effective_timeout
      [where t = 3 and e = 3 and ws = "[]"
         and s = "(initial_globals :: nat globals)\<lparr>obn_signal_to_eplus := EPSIG_Y\<rparr>"]
    waitforOBNSignal_effective_timeout
      [where t = 0 and e = "- 1" and s = "initial_globals :: nat globals"
         and ws = "[Notified EPSIG_NONE, Notified EPSIG_X, Elapsed]"
         and pre = "[Notified EPSIG_NONE]" and v = EPSIG_X and rest = "[Elapsed]"
         and v' = EPSIG_X and ws' = "[Elapsed]"
         and s' = "(initial_globals :: nat globals)\<lparr>obn_signal_to_eplus := EPSIG_X,
                              history := [WaitOBNReturned EPSIG_X]\<rparr>"]
    waitforOBNSignal_effective_timeout
      [where t = 0 and e = "- 1" and s = "initial_globals :: nat globals"
         and ws = "[Elapsed, Notified EPSIG_NONE]"]
    waitforOBNSignal_effective_timeout
      [where t = 0 and e = 5
         and s = "(initial_globals :: nat globals)\<lparr>default_obn_timeout := 5\<rparr>"
         and ws = "[Notified EPSIG_NONE, Elapsed, Notified EPSIG_Y]"
         and pre' = "[Notified EPSIG_NONE]" and rest' = "[Notified EPSIG_Y]"]
  by (simp add: initial_globals_def log_event_def)

subsection \<open>The error callbacks\<close>

lemma askEnergyPlusToQuit_Blocks:
  "askEnergyPlusToQuit s ws = Blocks \<longleftrightarrow> (\<forall>v. Notified v \<in> set ws \<longrightarrow> v = OBNSIG_NONE)"
  using cond_wait_None_iff [of OBNSIG_NONE ws]
  by (auto simp: askEnergyPlusToQuit_def waitforEPlusSignal_def signalEPlus_def
      resetEPlusSignal_def log_event_def split: option.splits)

lemma askEnergyPlusToQuit_not_Fails: "askEnergyPlusToQuit s ws \<noteq> Fails e"
  by (auto simp: askEnergyPlusToQuit_def waitforEPlusSignal_def signalEPlus_def
      resetEPlusSignal_def log_event_def split: option.splits)

lemma askEnergyPlusToQuit_Returns:
  assumes "askEnergyPlusToQuit s ws = Returns (s', ws')"
  shows "\<exists>ack. ack \<noteq> OBNSIG_NONE \<and> Notified ack \<in> set ws \<and>
           s' = s\<lparr>eplus_signal_to_obn := ack, obn_signal_to_eplus := EPSIG_QUIT,
                  history := history s @ [ResetEPlusSignal, SignalEPlus EPSIG_QUIT,
                                          WaitEPlusReturned ack]\<rparr>"
proof -
  from assms obtain ack where cw: "cond_wait OBNSIG_NONE ws = Some (ack, ws')"
    and s': "s' = s\<lparr>eplus_signal_to_obn := ack, obn_signal_to_eplus := EPSIG_QUIT,
                  history := history s @ [ResetEPlusSignal, SignalEPlus EPSIG_QUIT,
                                          WaitEPlusReturned ack]\<rparr>"
    by (auto simp: askEnergyPlusToQuit_def waitforEPlusSignal_def signalEPlus_def
        resetEPlusSignal_def log_event_def split: option.splits)
  from cond_wait_Some [OF cw] s' show ?thesis by blast
qed

text \<open>
  C5. Each of the four error callbacks, run on the node that \<open>obn_thread\<close> owns, sets the
  node's state to ERROR and then escalates: it resets the engine-to-node mailbox, posts QUIT
  on the node-to-engine mailbox and waits with no timeout on the engine-to-node mailbox. It
  never returns if no signal other than NONE is posted there (what the mailbox held before
  the reset does not count), and when it returns, the four steps are in the log in this
  order, the node is in state ERROR and the mailboxes hold QUIT and the engine's answer.
\<close>

theorem error_callbacks_quit_escalation:
  assumes cb: "cb \<in> {onRawMessageError, onReadValueError, onSendMessageError, onOBNError}"
    and node: "obn_thread s = Some th"
  shows "(cb s ws = Blocks \<longleftrightarrow> (\<forall>v. Notified v \<in> set ws \<longrightarrow> v = OBNSIG_NONE)) \<and>
         cb s ws \<noteq> Fails e \<and>
         (cb s ws = Returns (s', ws') \<longrightarrow>
            (\<exists>ack. ack \<noteq> OBNSIG_NONE \<and> Notified ack \<in> set ws \<and>
               history s' = history s @ [SetNodeState NODE_ERROR, ResetEPlusSignal,
                                         SignalEPlus EPSIG_QUIT, WaitEPlusReturned ack] \<and>
               map_option (\<lambda>t. node_state (m_obnnode t)) (obn_thread s') = Some NODE_ERROR \<and>
               obn_signal_to_eplus s' = EPSIG_QUIT \<and>
               eplus_signal_to_obn s' = ack))"
proof -
  define s1 where "s1 = log_event (SetNodeState NODE_ERROR)
     (s\<lparr>obn_thread := Some (th\<lparr>m_obnnode := (m_obnnode th)\<lparr>node_state := NODE_ERROR\<rparr>\<rparr>)\<rparr>)"
  from cb node have eq: "cb s ws = askEnergyPlusToQuit s1 ws"
    by (auto simp: onRawMessageError_def onReadValueError_def onSendMessageError_def
        onOBNError_def set_node_state_def s1_def)
  have h1: "history s1 = history s @ [SetNodeState NODE_ERROR]"
    and n1: "map_option (\<lambda>t. node_state (m_obnnode t)) (obn_thread s1) = Some NODE_ERROR"
    by (simp_all add: s1_def log_event_def)
  have "cb s ws = Returns (s', ws') \<longrightarrow>
            (\<exists>ack. ack \<noteq> OBNSIG_NONE \<and> Notified ack \<in> set ws \<and>
               history s' = history s @ [SetNodeState NODE_ERROR, ResetEPlusSignal,
                                         SignalEPlus EPSIG_QUIT, WaitEPlusReturned ack] \<and>
               map_option (\<lambda>t. node_state (m_obnnode t)) (obn_thread s') = Some NODE_ERROR \<and>
               obn_signal_to_eplus s' = EPSIG_QUIT \<and>
               eplus_signal_to_obn s' = ack)"
  proof
    assume "cb s ws = Returns (s', ws')"
    with eq have "askEnergyPlusToQuit s1 ws = Returns (s', ws')" by simp
    from askEnergyPlusToQuit_Returns [OF this] obtain ack where
      "ack \<noteq> OBNSIG_NONE" "Notified ack \<in> set ws"
      "s' = s1\<lparr>eplus_signal_to_obn := ack, obn_signal_to_eplus := EPSIG_QUIT,
                  history := history s1 @ [ResetEPlusSignal, SignalEPlus EPSIG_QUIT,
                                          WaitEPlusReturned ack]\<rparr>"
      by blast
    with h1 n1 show "\<exists>ack. ack \<noteq> OBNSIG_NONE \<and> Notified ack \<in> set ws \<and>
               history s' = history s @ [SetNodeState NODE_ERROR, ResetEPlusSignal,
                                         SignalEPlus EPSIG_QUIT, WaitEPlusReturned ack] \<and>
               map_option (\<lambda>t. node_state (m_obnnode t)) (obn_thread s') = Some NODE_ERROR \<and>
               obn_signal_to_eplus s' = EPSIG_QUIT \<and>
               eplus_signal_to_obn s' = ack"
      by auto
  qed
  with eq askEnergyPlusToQuit_Blocks [of s1 ws] askEnergyPlusToQuit_not_Fails [of s1 ws e]
  show ?thesis by simp
qed

theorem error_callbacks_quit_escalation_witness:
  "onOBNError \<in> {onRawMessageError, onReadValueError, onSendMessageError,
                  onOBNError :: nat globals \<Rightarrow> _} \<and>
   onOBNError
     ((initial_globals :: nat globals)\<lparr>eplus_signal_to_obn := OBNSIG_DONE,
         obn_thread := Some (EPlusOBNThread_new ''node1'' ''myworkspace'')\<rparr>)
     [Notified OBNSIG_NONE, Notified OBNSIG_TERM] =
   Returns
     (initial_globals\<lparr>eplus_signal_to_obn := OBNSIG_TERM, obn_signal_to_eplus := EPSIG_QUIT,
        obn_thread := Some ((EPlusOBNThread_new ''node1'' ''myworkspace'')
           \<lparr>m_obnnode := (MQTTNodeEPlus_new ''node1'' ''myworkspace'')\<lparr>node_state := NODE_ERROR\<rparr>\<rparr>),
        history := [SetNodeState NODE_ERROR, ResetEPlusSignal, SignalEPlus EPSIG_QUIT,
                    WaitEPlusReturned OBNSIG_TERM]\<rparr>, []) \<and>
   onOBNError
     ((initial_globals :: nat globals)\<lparr>eplus_signal_to_obn := OBNSIG_DONE,
         obn_thread := Some (EPlusOBNThread_new ''node1'' ''myworkspace'')\<rparr>)
     [Notified OBNSIG_NONE] = Blocks"
  using
    error_callbacks_quit_escalation
      [where cb = onOBNError and th = "EPlusOBNThread_new ''node1'' ''myworkspace''"
         and s = "(initial_globals :: nat globals)\<lparr>eplus_signal_to_obn := OBNSIG_DONE,
                    obn_thread := Some (EPlusOBNThread_new ''node1'' ''myworkspace'')\<rparr>"
         and ws = "[Notified OBNSIG_NONE, Notified OBNSIG_TERM]"]
    error_callbacks_quit_escalation
      [where cb = onOBNError and th = "EPlusOBNThread_new ''node1'' ''myworkspace''"
         and s = "(initial_globals :: nat globals)\<lparr>eplus_signal_to_obn := OBNSIG_DONE,
                    obn_thread := Some (EPlusOBNThread_new ''node1'' ''myworkspace'')\<rparr>"
         and ws = "[Notified OBNSIG_NONE]"]
  by (simp add: onOBNError_def set_node_state_def askEnergyPlusToQuit_def
      waitforEPlusSignal_def signalEPlus_def resetEPlusSignal_def log_event_def
      initial_globals_def EPlusOBNThread_new_def)

subsection \<open>The update and initialisation callbacks\<close>

lemma waitforEPlusSignal_Returns:
  "waitforEPlusSignal s ws = Returns (sig, s1, ws1) \<Longrightarrow>
     sig \<noteq> OBNSIG_NONE \<and> s1 = s\<lparr>eplus_signal_to_obn := sig,
                                  history := history s @ [WaitEPlusReturned sig]\<rparr>"
  by (auto simp: waitforEPlusSignal_def log_event_def dest: cond_wait_Some
      split: if_splits option.splits)

text \<open>
  C6. In \<^verbatim>\<open>onUpdateY\<close>, \<^verbatim>\<open>onUpdateX\<close> and \<^verbatim>\<open>onInitialization\<close>: once the callback has
  posted its signal and its wait on the engine-to-node mailbox has returned \<open>sig\<close> (the
  mailbox then holds \<open>sig\<close>), the callback returns; it has reset the mailbox to NONE if
  \<open>sig\<close> is DONE, and it has changed nothing after the wait if \<open>sig\<close> is anything else,
  so the mailbox still holds \<open>sig\<close>.
\<close>

theorem update_callbacks_reset_only_on_DONE:
  assumes cb: "(cb, sg) \<in> {(onUpdateY, EPSIG_Y), (onUpdateX, EPSIG_X),
                           (onInitialization, EPSIG_START)}"
    and w: "waitforEPlusSignal (signalEPlus sg s) ws = Returns (sig, s1, ws1)"
  shows "\<exists>s'. cb s ws = Returns (s', ws1) \<and>
           eplus_signal_to_obn s1 = sig \<and>
           (sig = OBNSIG_DONE \<longrightarrow> s' = resetEPlusSignal s1 \<and>
              eplus_signal_to_obn s' = OBNSIG_NONE) \<and>
           (sig \<noteq> OBNSIG_DONE \<longrightarrow> s' = s1 \<and> eplus_signal_to_obn s' = sig) \<and>
           history s' = history s @ [SignalEPlus sg, WaitEPlusReturned sig] @
                          (if sig = OBNSIG_DONE then [ResetEPlusSignal] else [])"
proof -
  from waitforEPlusSignal_Returns [OF w]
  have s1: "s1 = (signalEPlus sg s)\<lparr>eplus_signal_to_obn := sig,
                   history := history (signalEPlus sg s) @ [WaitEPlusReturned sig]\<rparr>"
    by simp
  from cb w have "cb s ws =
      (if sig = OBNSIG_DONE then Returns (resetEPlusSignal s1, ws1) else Returns (s1, ws1))"
    by (auto simp: onUpdateY_def onUpdateX_def onInitialization_def)
  with s1 show ?thesis
    by (auto simp: resetEPlusSignal_def signalEPlus_def log_event_def)
qed

theorem update_callbacks_reset_only_on_DONE_witness:
  "onUpdateY (initial_globals :: nat globals) [Notified OBNSIG_DONE] =
     Returns (initial_globals\<lparr>obn_signal_to_eplus := EPSIG_Y,
                history := [SignalEPlus EPSIG_Y, WaitEPlusReturned OBNSIG_DONE,
                            ResetEPlusSignal]\<rparr>, []) \<and>
   onUpdateX (initial_globals :: nat globals) [Notified OBNSIG_EXIT] =
     Returns (initial_globals\<lparr>eplus_signal_to_obn := OBNSIG_EXIT,
                obn_signal_to_eplus := EPSIG_X,
                history := [SignalEPlus EPSIG_X, WaitEPlusReturned OBNSIG_EXIT]\<rparr>, [])"
proof -
  have w1: "waitforEPlusSignal (signalEPlus EPSIG_Y (initial_globals :: nat globals))
              [Notified OBNSIG_DONE] =
            Returns (OBNSIG_DONE,
              initial_globals\<lparr>eplus_signal_to_obn := OBNSIG_DONE,
                obn_signal_to_eplus := EPSIG_Y,
                history := [SignalEPlus EPSIG_Y, WaitEPlusReturned OBNSIG_DONE]\<rparr>, [])"
    by (simp add: waitforEPlusSignal_def signalEPlus_def log_event_def initial_globals_def)
  have w2: "waitforEPlusSignal (signalEPlus EPSIG_X (initial_globals :: nat globals))
              [Notified OBNSIG_EXIT] =
            Returns (OBNSIG_EXIT,
              initial_globals\<lparr>eplus_signal_to_obn := OBNSIG_EXIT,
                obn_signal_to_eplus := EPSIG_X,
                history := [SignalEPlus EPSIG_X, WaitEPlusReturned OBNSIG_EXIT]\<rparr>, [])"
    by (simp add: waitforEPlusSignal_def signalEPlus_def log_event_def initial_globals_def)
  have m1: "(onUpdateY :: nat globals \<Rightarrow> _, EPSIG_Y) \<in>
              {(onUpdateY, EPSIG_Y), (onUpdateX, EPSIG_X), (onInitialization, EPSIG_START)}"
    and m2: "(onUpdateX :: nat globals \<Rightarrow> _, EPSIG_X) \<in>
              {(onUpdateY, EPSIG_Y), (onUpdateX, EPSIG_X), (onInitialization, EPSIG_START)}"
    by simp_all
  from update_callbacks_reset_only_on_DONE [OF m1 w1]
    update_callbacks_reset_only_on_DONE [OF m2 w2]
  show ?thesis
    by (auto simp: resetEPlusSignal_def log_event_def initial_globals_def)
qed

subsection \<open>The gateway\<close>

lemma waitforOBNSignal_Returns:
  "waitforOBNSignal d s ws = Returns (v, s', ws') \<Longrightarrow>
     s' = s\<lparr>obn_signal_to_eplus := obn_signal_to_eplus s',
            history := history s @ [WaitOBNReturned v]\<rparr>"
  by (auto simp: waitforOBNSignal_def log_event_def Let_def
      split: if_splits option.splits prod.splits)

lemma wait_then_reset:
  assumes "waitforOBNSignal d s ws = Returns (v, s', ws')"
  shows "resetOBNSignal s' =
           s\<lparr>obn_signal_to_eplus := EPSIG_NONE,
             history := history s @ [WaitOBNReturned v, ResetOBNSignal]\<rparr>"
proof -
  from waitforOBNSignal_Returns [OF assms]
  have "resetOBNSignal s' =
          resetOBNSignal (s\<lparr>obn_signal_to_eplus := obn_signal_to_eplus s',
                            history := history s @ [WaitOBNReturned v]\<rparr>)"
    by simp
  then show ?thesis by (simp add: resetOBNSignal_def log_event_def)
qed

lemma wait_transfer:
  assumes "waitforOBNSignal d s ws = Returns (v, s', ws')"
    and "obn_signal_to_eplus t = obn_signal_to_eplus s"
    and "default_obn_timeout t = default_obn_timeout s"
  shows "\<exists>t'. waitforOBNSignal d t ws = Returns (v, t', ws')"
  using assms
  by (auto simp: waitforOBNSignal_def log_event_def Let_def
      split: if_splits option.splits prod.splits)

lemma wait_transfer_Blocks:
  assumes "waitforOBNSignal d s ws = Blocks"
    and "obn_signal_to_eplus t = obn_signal_to_eplus s"
    and "default_obn_timeout t = default_obn_timeout s"
  shows "waitforOBNSignal d t ws = Blocks"
  using assms
  by (auto simp: waitforOBNSignal_def log_event_def Let_def
      split: if_splits option.splits prod.splits)

lemma int_of_size_t_small: "n < 2 ^ 31 \<Longrightarrow> int_of_size_t n = int n"
  by (simp add: int_of_size_t_def Let_def)

lemma size_t_of_int_nonneg: "0 \<le> i \<Longrightarrow> i < 2 ^ 31 \<Longrightarrow> size_t_of_int i = nat i"
  by (simp add: size_t_of_int_def)

lemma signalOBN_DONE:
  "signalOBN OBNSIG_DONE s =
     s\<lparr>eplus_signal_to_obn := OBNSIG_DONE, history := history s @ [SignalOBN OBNSIG_DONE]\<rparr>"
  by (simp add: signalOBN_def log_event_def)

text \<open>The state in which the gateway starts its second wait, once UPDATE_Y was observed.\<close>

lemma exchange_after_UPDATE_Y:
  assumes node: "obn_thread s = Some th"
    and w1: "waitforOBNSignal dflt s ws = Returns (EPSIG_Y, s1, ws1)"
    and n: "0 \<le> nDblWri a" "nDblWri a < 2 ^ 31"
  shows "\<exists>s4. obn_signal_to_eplus s4 = EPSIG_NONE \<and>
           default_obn_timeout s4 = default_obn_timeout s \<and>
           eplus_signal_to_obn s4 = OBNSIG_DONE \<and>
           map_option (\<lambda>t. m_double_input (m_obnnode t)) (obn_thread s4) =
             Some (m_double_input (m_obnnode th)) \<and>
           history s4 = history s @ [WaitOBNReturned EPSIG_Y, ResetOBNSignal,
                                     SetOutputValues (nat (nDblWri a)), SignalOBN OBNSIG_DONE] \<and>
           exchangedoublewithOBN dflt now a b s ws =
             and_then (waitforOBNSignal dflt s4 ws1) (\<lambda>(sig', s5, ws2).
               if sig' \<noteq> EPSIG_X
               then Returns (fst (processOBNSignal sig' 0),
                             b\<lparr>flaRea := snd (processOBNSignal sig' 0)\<rparr>, resetOBNSignal s5, ws2)
               else and_then (getInputValues (b\<lparr>flaRea := 0\<rparr>) (resetOBNSignal s5))
                      (\<lambda>(retVal', b1, s7).
                         Returns (retVal', b1\<lparr>simTimRea := now\<rparr>, signalOBN OBNSIG_DONE s7, ws2)))"
proof -
  let ?n = "nat (nDblWri a)"
  let ?v = "if ?n > 0 then copy_n (dblValWri a) ?n [] else []"
  let ?s3 = "s\<lparr>obn_signal_to_eplus := EPSIG_NONE,
               obn_thread := Some (th\<lparr>m_obnnode := (m_obnnode th)\<lparr>m_double_output := ?v\<rparr>\<rparr>),
               history := history s @ [WaitOBNReturned EPSIG_Y, ResetOBNSignal,
                                       SetOutputValues ?n]\<rparr>"
  let ?s4 = "signalOBN OBNSIG_DONE ?s3"
  have r1: "resetOBNSignal s1 = s\<lparr>obn_signal_to_eplus := EPSIG_NONE,
             history := history s @ [WaitOBNReturned EPSIG_Y, ResetOBNSignal]\<rparr>"
    by (rule wait_then_reset [OF w1])
  have so: "setOutputValues (size_t_of_int (nDblWri a)) (dblValWri a) (resetOBNSignal s1) =
              Returns (nDblWri a, ?s3)"
    using node n
    by (simp add: r1 setOutputValues_def size_t_of_int_nonneg int_of_size_t_small
        max_doubles_def log_event_def Let_def)
  have ex: "exchangedoublewithOBN dflt now a b s ws =
             and_then (waitforOBNSignal dflt ?s4 ws1) (\<lambda>(sig', s5, ws2).
               if sig' \<noteq> EPSIG_X
               then Returns (fst (processOBNSignal sig' 0),
                             b\<lparr>flaRea := snd (processOBNSignal sig' 0)\<rparr>, resetOBNSignal s5, ws2)
               else and_then (getInputValues (b\<lparr>flaRea := 0\<rparr>) (resetOBNSignal s5))
                      (\<lambda>(retVal', b1, s7).
                         Returns (retVal', b1\<lparr>simTimRea := now\<rparr>, signalOBN OBNSIG_DONE s7, ws2)))"
    using node n(1)
    by (simp add: exchangedoublewithOBN_def w1 so Let_def split_def cong: if_cong)
  show ?thesis
    by (rule exI [of _ ?s4]) (simp add: ex signalOBN_DONE)
qed


text \<open>
  C7. If the gateway's first wait returns TERMINATE (a node exists, so the wait is reached),
  the gateway returns status 0 with \<^verbatim>\<open>*flaRea\<close> set to 1; the other out-parameters
  (\<^verbatim>\<open>*nDblRea\<close>, \<^verbatim>\<open>dblValRea\<close>, \<^verbatim>\<open>*simTimRea\<close>) are as the caller passed them, and of the
  state only the node-to-engine mailbox, reset to NONE, and the log have changed.
\<close>

theorem exchange_TERMINATE_at_first_wait:
  assumes node: "obn_thread s \<noteq> None"
    and w1: "waitforOBNSignal dflt s ws = Returns (EPSIG_TERM, s1, ws1)"
  shows "exchangedoublewithOBN dflt now a b s ws =
           Returns (0, b\<lparr>flaRea := 1\<rparr>,
                    s\<lparr>obn_signal_to_eplus := EPSIG_NONE,
                      history := history s @ [WaitOBNReturned EPSIG_TERM, ResetOBNSignal]\<rparr>, ws1)"
  using node w1 wait_then_reset [OF w1]
  by (simp add: exchangedoublewithOBN_def processOBNSignal_def Let_def)

theorem exchange_TERMINATE_at_first_wait_witness:
  "exchangedoublewithOBN (- 1) 42 \<lparr>flaWri = 0, nDblWri = 2, dblValWri = [1, 2]\<rparr>
     \<lparr>flaRea = 7, nDblRea = 3, simTimRea = 9, dblValRea = [3, 4, 5]\<rparr>
     (running_session [6]) [Notified EPSIG_TERM, Notified EPSIG_Y] =
   Returns (0, \<lparr>flaRea = 1, nDblRea = 3, simTimRea = 9, dblValRea = [3, 4, 5]\<rparr>,
            (running_session [6])\<lparr>history := [WaitOBNReturned EPSIG_TERM, ResetOBNSignal]\<rparr>,
            [Notified EPSIG_Y])"
proof -
  have node: "obn_thread (running_session [6]) \<noteq> None"
    by (simp add: running_session_def)
  have w1: "waitforOBNSignal (- 1) (running_session [6]) [Notified EPSIG_TERM, Notified EPSIG_Y] =
      Returns (EPSIG_TERM,
               (running_session [6])\<lparr>obn_signal_to_eplus := EPSIG_TERM,
                                      history := [WaitOBNReturned EPSIG_TERM]\<rparr>,
               [Notified EPSIG_Y])"
    by (simp add: waitforOBNSignal_def running_session_def initial_globals_def log_event_def)
  from exchange_TERMINATE_at_first_wait [OF node w1, of 42
      "\<lparr>flaWri = 0, nDblWri = 2, dblValWri = [1, 2]\<rparr>"
      "\<lparr>flaRea = 7, nDblRea = 3, simTimRea = 9, dblValRea = [3, 4, 5]\<rparr>"]
  show ?thesis
    by (simp add: running_session_def initial_globals_def)
qed

text \<open>
  C1, as the claim has it, fails: with 1025 values on the input port the gateway returns
  the capacity error - 1, and it has posted DONE after the failed read all the same.
\<close>

theorem exchange_capacity_error_still_posts_DONE:
  "exchangedoublewithOBN (- 1) 7 \<lparr>flaWri = 0, nDblWri = 0, dblValWri = []\<rparr>
     \<lparr>flaRea = 0, nDblRea = 0, simTimRea = 0, dblValRea = replicate 1024 0\<rparr>
     ((running_session (replicate 1025 3))\<lparr>obn_signal_to_eplus := EPSIG_Y\<rparr>)
     [Notified EPSIG_X] =
   Returns (- 1, \<lparr>flaRea = 0, nDblRea = 0, simTimRea = 7, dblValRea = replicate 1024 0\<rparr>,
            (running_session (replicate 1025 3))
              \<lparr>eplus_signal_to_obn := OBNSIG_DONE,
               history := [WaitOBNReturned EPSIG_Y, ResetOBNSignal, SetOutputValues 0,
                           SignalOBN OBNSIG_DONE, WaitOBNReturned EPSIG_X, ResetOBNSignal,
                           GetInputValues (- 1), SignalOBN OBNSIG_DONE]\<rparr>,
            [])"
  by (simp add: exchangedoublewithOBN_def waitforOBNSignal_def resetOBNSignal_def
      setOutputValues_def signalOBN_def getInputValues_def log_event_def size_t_of_int_def
      int_of_size_t_def max_doubles_def NDBLMAX_def running_session_def initial_globals_def
      MQTTNodeEPlus_new_def Let_def)

text \<open>
  C1, amended. When the gateway has observed UPDATE_Y and then UPDATE_X (the count
  \<^verbatim>\<open>*nDblWri\<close> being a non-negative \<^verbatim>\<open>int\<close>) and the input port holds \<open>inp\<close>: with more than
  \<open>NDBLMAX\<close> = 1024 values it returns - 1, \<^verbatim>\<open>*nDblRea\<close> is 0 and no value is copied; with at
  most 1024 values, so with exactly 1024, it returns 0, \<^verbatim>\<open>*nDblRea\<close> is their number and
  all of them are copied to the front of \<^verbatim>\<open>dblValRea\<close>. In both cases the simulation time
  is stored and DONE is posted on the engine-to-node mailbox after the read.
\<close>

theorem exchange_input_capacity:
  assumes node: "obn_thread s = Some th"
    and w1: "waitforOBNSignal dflt s ws = Returns (EPSIG_Y, s1, ws1)"
    and w2: "waitforOBNSignal dflt (resetOBNSignal s1) ws1 = Returns (EPSIG_X, s2, ws2)"
    and n: "0 \<le> nDblWri a" "nDblWri a < 2 ^ 31"
    and inp: "inp = m_double_input (m_obnnode th)"
  shows "\<exists>s'. exchangedoublewithOBN dflt now a b s ws =
             Returns (if length inp > NDBLMAX then - 1 else 0,
                      if length inp > NDBLMAX
                      then b\<lparr>flaRea := 0, nDblRea := 0, simTimRea := now\<rparr>
                      else b\<lparr>flaRea := 0, nDblRea := int (length inp), simTimRea := now,
                             dblValRea := inp @ drop (length inp) (dblValRea b)\<rparr>,
                      s', ws2) \<and>
           history s' = history s @
             [WaitOBNReturned EPSIG_Y, ResetOBNSignal, SetOutputValues (nat (nDblWri a)),
              SignalOBN OBNSIG_DONE, WaitOBNReturned EPSIG_X, ResetOBNSignal,
              GetInputValues (if length inp > NDBLMAX then - 1 else 0),
              SignalOBN OBNSIG_DONE] \<and>
           eplus_signal_to_obn s' = OBNSIG_DONE"
proof -
  from exchange_after_UPDATE_Y [OF node w1 n, of now b] obtain s4 where
    m4: "obn_signal_to_eplus s4 = EPSIG_NONE"
    and d4: "default_obn_timeout s4 = default_obn_timeout s"
    and i4: "map_option (\<lambda>t. m_double_input (m_obnnode t)) (obn_thread s4) = Some inp"
    and h4: "history s4 = history s @ [WaitOBNReturned EPSIG_Y, ResetOBNSignal,
                                     SetOutputValues (nat (nDblWri a)), SignalOBN OBNSIG_DONE]"
    and ex: "exchangedoublewithOBN dflt now a b s ws =
             and_then (waitforOBNSignal dflt s4 ws1) (\<lambda>(sig', s5, ws2).
               if sig' \<noteq> EPSIG_X
               then Returns (fst (processOBNSignal sig' 0),
                             b\<lparr>flaRea := snd (processOBNSignal sig' 0)\<rparr>, resetOBNSignal s5, ws2)
               else and_then (getInputValues (b\<lparr>flaRea := 0\<rparr>) (resetOBNSignal s5))
                      (\<lambda>(retVal', b1, s7).
                         Returns (retVal', b1\<lparr>simTimRea := now\<rparr>, signalOBN OBNSIG_DONE s7, ws2)))"
    unfolding inp by blast
  have r1: "resetOBNSignal s1 = s\<lparr>obn_signal_to_eplus := EPSIG_NONE,
             history := history s @ [WaitOBNReturned EPSIG_Y, ResetOBNSignal]\<rparr>"
    by (rule wait_then_reset [OF w1])
  from wait_transfer [OF w2, of s4] m4 d4 r1 obtain s5 where
    w2': "waitforOBNSignal dflt s4 ws1 = Returns (EPSIG_X, s5, ws2)"
    by auto
  have r2: "resetOBNSignal s5 = s4\<lparr>obn_signal_to_eplus := EPSIG_NONE,
             history := history s4 @ [WaitOBNReturned EPSIG_X, ResetOBNSignal]\<rparr>"
    by (rule wait_then_reset [OF w2'])
  from i4 obtain th4 where t4: "obn_thread s4 = Some th4"
    and ti: "m_double_input (m_obnnode th4) = inp"
    by auto
  show ?thesis
  proof (cases "length inp > NDBLMAX")
    case True
    with t4 ti h4 show ?thesis
      by (simp add: ex w2' r2 getInputValues_def signalOBN_DONE log_event_def Let_def)
  next
    case False
    then have "length inp < 2 ^ 31" by (simp add: NDBLMAX_def)
    with False t4 ti h4 show ?thesis
      by (simp add: ex w2' r2 getInputValues_def signalOBN_DONE log_event_def Let_def
          int_of_size_t_small copy_n_def)
  qed
qed


theorem exchange_input_capacity_witness:
  "\<exists>s'. exchangedoublewithOBN (- 1) 7 \<lparr>flaWri = 0, nDblWri = 1, dblValWri = [8]\<rparr>
           \<lparr>flaRea = 0, nDblRea = 0, simTimRea = 0, dblValRea = replicate 1024 0\<rparr>
           (running_session (replicate 1024 3)) [Notified EPSIG_Y, Notified EPSIG_X] =
         Returns (0, \<lparr>flaRea = 0, nDblRea = 1024, simTimRea = 7,
                      dblValRea = replicate 1024 3\<rparr>, s', []) \<and>
         history s' =
           [WaitOBNReturned EPSIG_Y, ResetOBNSignal, SetOutputValues 1, SignalOBN OBNSIG_DONE,
            WaitOBNReturned EPSIG_X, ResetOBNSignal, GetInputValues 0, SignalOBN OBNSIG_DONE] \<and>
         eplus_signal_to_obn s' = OBNSIG_DONE"
proof -
  let ?s = "running_session (replicate 1024 3)"
  let ?th = "\<lparr>m_thread_joinable = True,
             m_obnnode = (MQTTNodeEPlus_new ''node1'' ''myworkspace'')
                           \<lparr>m_double_input := replicate 1024 (3::nat)\<rparr>\<rparr>"
  let ?s1 = "?s\<lparr>obn_signal_to_eplus := EPSIG_Y, history := [WaitOBNReturned EPSIG_Y]\<rparr>"
  let ?s2 = "?s\<lparr>obn_signal_to_eplus := EPSIG_X,
                history := [WaitOBNReturned EPSIG_Y, ResetOBNSignal, WaitOBNReturned EPSIG_X]\<rparr>"
  have node: "obn_thread ?s = Some ?th"
    by (simp add: running_session_def)
  have w1: "waitforOBNSignal (- 1) ?s [Notified EPSIG_Y, Notified EPSIG_X] =
              Returns (EPSIG_Y, ?s1, [Notified EPSIG_X])"
    by (simp add: waitforOBNSignal_def running_session_def initial_globals_def log_event_def)
  have w2: "waitforOBNSignal (- 1) (resetOBNSignal ?s1) [Notified EPSIG_X] =
              Returns (EPSIG_X, ?s2, [])"
    by (simp add: waitforOBNSignal_def resetOBNSignal_def running_session_def
        initial_globals_def log_event_def)
  have inp: "replicate 1024 (3::nat) = m_double_input (m_obnnode ?th)"
    by simp
  from exchange_input_capacity [OF node w1 w2 _ _ inp, of
      "\<lparr>flaWri = 0, nDblWri = 1, dblValWri = [8]\<rparr>" 7
      "\<lparr>flaRea = 0, nDblRea = 0, simTimRea = 0, dblValRea = replicate 1024 0\<rparr>"]
  show ?thesis
    by (simp add: NDBLMAX_def running_session_def initial_globals_def)
qed


text \<open>What a call of the gateway does once both of its waits have returned.\<close>

lemma exchange_UPDATE_Y_returns:
  assumes node: "obn_thread s = Some th"
    and w1: "waitforOBNSignal dflt s ws = Returns (EPSIG_Y, s1, ws1)"
    and n: "0 \<le> nDblWri a" "nDblWri a < 2 ^ 31"
    and w2: "waitforOBNSignal dflt (resetOBNSignal s1) ws1 = Returns (sig', s2, ws2)"
  shows "\<exists>r b' s' rest.
           exchangedoublewithOBN dflt now a b s ws = Returns (r, b', s', ws2) \<and>
           obn_signal_to_eplus s' = EPSIG_NONE \<and>
           default_obn_timeout s' = default_obn_timeout s \<and>
           obn_thread s' \<noteq> None \<and>
           history s' = history s @
             [WaitOBNReturned EPSIG_Y, ResetOBNSignal, SetOutputValues (nat (nDblWri a)),
              SignalOBN OBNSIG_DONE, WaitOBNReturned sig', ResetOBNSignal] @ rest \<and>
           (sig' \<noteq> EPSIG_X \<and> rest = [] \<or>
            sig' = EPSIG_X \<and> (\<exists>g. rest = [GetInputValues g, SignalOBN OBNSIG_DONE]))"
proof -
  from exchange_after_UPDATE_Y [OF node w1 n, of now b] obtain s4 where
    m4: "obn_signal_to_eplus s4 = EPSIG_NONE"
    and d4: "default_obn_timeout s4 = default_obn_timeout s"
    and i4: "map_option (\<lambda>t. m_double_input (m_obnnode t)) (obn_thread s4) =
             Some (m_double_input (m_obnnode th))"
    and h4: "history s4 = history s @ [WaitOBNReturned EPSIG_Y, ResetOBNSignal,
                                     SetOutputValues (nat (nDblWri a)), SignalOBN OBNSIG_DONE]"
    and ex: "exchangedoublewithOBN dflt now a b s ws =
             and_then (waitforOBNSignal dflt s4 ws1) (\<lambda>(sig', s5, ws2).
               if sig' \<noteq> EPSIG_X
               then Returns (fst (processOBNSignal sig' 0),
                             b\<lparr>flaRea := snd (processOBNSignal sig' 0)\<rparr>, resetOBNSignal s5, ws2)
               else and_then (getInputValues (b\<lparr>flaRea := 0\<rparr>) (resetOBNSignal s5))
                      (\<lambda>(retVal', b1, s7).
                         Returns (retVal', b1\<lparr>simTimRea := now\<rparr>, signalOBN OBNSIG_DONE s7, ws2)))"
    by blast
  have r1: "resetOBNSignal s1 = s\<lparr>obn_signal_to_eplus := EPSIG_NONE,
             history := history s @ [WaitOBNReturned EPSIG_Y, ResetOBNSignal]\<rparr>"
    by (rule wait_then_reset [OF w1])
  from wait_transfer [OF w2, of s4] m4 d4 r1 obtain s5 where
    w2': "waitforOBNSignal dflt s4 ws1 = Returns (sig', s5, ws2)"
    by auto
  have r2: "resetOBNSignal s5 = s4\<lparr>obn_signal_to_eplus := EPSIG_NONE,
             history := history s4 @ [WaitOBNReturned sig', ResetOBNSignal]\<rparr>"
    by (rule wait_then_reset [OF w2'])
  from i4 obtain th4 where t4: "obn_thread s4 = Some th4" by auto
  show ?thesis
  proof (cases "sig' = EPSIG_X")
    case False
    with h4 d4 t4 show ?thesis by (simp add: ex w2' r2)
  next
    case True
    with t4 h4 d4 show ?thesis
      by (simp add: ex w2' r2 getInputValues_def signalOBN_DONE log_event_def Let_def)
  qed
qed

lemma exchange_other_signal_returns:
  assumes node: "obn_thread s = Some th"
    and w1: "waitforOBNSignal dflt s ws = Returns (sig, s1, ws1)"
    and sig: "sig \<noteq> EPSIG_Y"
  shows "exchangedoublewithOBN dflt now a b s ws =
           Returns (fst (processOBNSignal sig 0), b\<lparr>flaRea := snd (processOBNSignal sig 0)\<rparr>,
                    s\<lparr>obn_signal_to_eplus := EPSIG_NONE,
                      history := history s @ [WaitOBNReturned sig, ResetOBNSignal]\<rparr>, ws1)"
  using node sig wait_then_reset [OF w1]
  by (simp add: exchangedoublewithOBN_def w1 Let_def split_def)

lemma size_t_of_int_negative:
  assumes "- (2 ^ 31) \<le> i" and "i < 0"
  shows "size_t_of_int i > max_doubles"
proof -
  have "i mod 2 ^ 64 = (i + 2 ^ 64) mod 2 ^ 64" by simp
  also have "\<dots> = i + 2 ^ 64" using assms by (intro mod_pos_pos_trivial) simp_all
  finally have "size_t_of_int i = nat (i + 2 ^ 64)" by (simp add: size_t_of_int_def)
  with assms show ?thesis by (simp add: max_doubles_def)
qed

text \<open>
  C10, as the claim has it, fails for a negative count. With \<^verbatim>\<open>*nDblWri\<close> = - 1 the gateway
  observes UPDATE_Y and calls \<^verbatim>\<open>setOutputValues\<close> with \<open>2\<^sup>6\<^sup>4 - 1\<close>; the resize of the output
  port throws, \<^verbatim>\<open>setOutputValues\<close> does not return, and the exception leaves the gateway
  before the post of DONE.
\<close>

theorem exchange_negative_count_never_acknowledges:
  "waitforOBNSignal (- 1) ((running_session [])\<lparr>obn_signal_to_eplus := EPSIG_Y\<rparr>)
       [Notified EPSIG_X] =
     Returns (EPSIG_Y,
              (running_session [])\<lparr>obn_signal_to_eplus := EPSIG_Y,
                                    history := [WaitOBNReturned EPSIG_Y]\<rparr>,
              [Notified EPSIG_X]) \<and>
   setOutputValues (size_t_of_int (- 1)) []
       (resetOBNSignal ((running_session [])\<lparr>obn_signal_to_eplus := EPSIG_Y,
                                              history := [WaitOBNReturned EPSIG_Y]\<rparr>)) =
     Fails AllocationFailure \<and>
   exchangedoublewithOBN (- 1) 7 \<lparr>flaWri = 0, nDblWri = - 1, dblValWri = []\<rparr>
       \<lparr>flaRea = 0, nDblRea = 0, simTimRea = 0, dblValRea = []\<rparr>
       ((running_session [])\<lparr>obn_signal_to_eplus := EPSIG_Y\<rparr>) [Notified EPSIG_X] =
     Fails AllocationFailure"
  by (simp add: exchangedoublewithOBN_def waitforOBNSignal_def resetOBNSignal_def
      setOutputValues_def log_event_def size_t_of_int_def max_doubles_def
      running_session_def initial_globals_def Let_def)

text \<open>
  C10, amended. For no count that an \<^verbatim>\<open>int\<close> gives does \<^verbatim>\<open>setOutputValues\<close> return a negative
  value, and for a non-negative \<^verbatim>\<open>int\<close> it returns that count: the gateway's test of the
  result never sends it past the input phase. Whenever the gateway observes UPDATE_Y with a
  non-negative \<^verbatim>\<open>*nDblWri\<close>, it posts DONE and goes on to wait for UPDATE_X: it never
  returns if that wait never does, and if the wait returns \<open>sig'\<close> the gateway returns, its
  log for the call starting with the first wait, the reset, the call of
  \<^verbatim>\<open>setOutputValues\<close>, the post of DONE and the second wait returning \<open>sig'\<close>.
\<close>

theorem setOutputValues_never_negative_for_int_counts:
  assumes node: "obn_thread s = Some th"
  shows "(- (2 ^ 31) \<le> i \<and> i < 2 ^ 31 \<and>
          setOutputValues (size_t_of_int i) vals s = Returns (r, s') \<longrightarrow> 0 \<le> i \<and> r = i) \<and>
         (0 \<le> i \<and> i < 2 ^ 31 \<longrightarrow>
            (\<exists>s''. setOutputValues (size_t_of_int i) vals s = Returns (i, s'') \<and>
                    history s'' = history s @ [SetOutputValues (nat i)])) \<and>
         (waitforOBNSignal dflt s ws = Returns (EPSIG_Y, s1, ws1) \<and>
          0 \<le> nDblWri a \<and> nDblWri a < 2 ^ 31 \<longrightarrow>
            (waitforOBNSignal dflt (resetOBNSignal s1) ws1 = Blocks \<longrightarrow>
               exchangedoublewithOBN dflt now a b s ws = Blocks) \<and>
            (waitforOBNSignal dflt (resetOBNSignal s1) ws1 = Returns (sig', s2, ws2) \<longrightarrow>
               (\<exists>ret b' sn. exchangedoublewithOBN dflt now a b s ws = Returns (ret, b', sn, ws2) \<and>
                  take 5 (drop (length (history s)) (history sn)) =
                    [WaitOBNReturned EPSIG_Y, ResetOBNSignal, SetOutputValues (nat (nDblWri a)),
                     SignalOBN OBNSIG_DONE, WaitOBNReturned sig'])))"
proof (intro conjI impI)
  assume h: "- (2 ^ 31) \<le> i \<and> i < 2 ^ 31 \<and>
          setOutputValues (size_t_of_int i) vals s = Returns (r, s')"
  show "0 \<le> i"
  proof (rule ccontr)
    assume "\<not> 0 \<le> i"
    with h have "size_t_of_int i > max_doubles" by (simp add: size_t_of_int_negative)
    with node h show False by (simp add: setOutputValues_def)
  qed
  with h have i: "0 \<le> i" "i < 2 ^ 31" by simp_all
  then have "nat i < 2 ^ 31" by simp
  then have small: "int_of_size_t (nat i) = int (nat i)"
    by (simp add: int_of_size_t_small)
  from node h i small show "r = i"
    by (auto simp: setOutputValues_def size_t_of_int_nonneg Let_def split: if_splits)
next
  assume "0 \<le> i \<and> i < 2 ^ 31"
  then have i: "0 \<le> i" "i < 2 ^ 31" by simp_all
  then have "nat i < 2 ^ 31" by simp
  then have small: "int_of_size_t (nat i) = int (nat i)" and fits: "\<not> nat i > max_doubles"
    by (simp_all add: int_of_size_t_small max_doubles_def)
  from node i small fits
  show "\<exists>s''. setOutputValues (size_t_of_int i) vals s = Returns (i, s'') \<and>
                    history s'' = history s @ [SetOutputValues (nat i)]"
    by (simp add: setOutputValues_def size_t_of_int_nonneg log_event_def Let_def)
next
  assume h: "waitforOBNSignal dflt s ws = Returns (EPSIG_Y, s1, ws1) \<and>
          0 \<le> nDblWri a \<and> nDblWri a < 2 ^ 31"
    and w2: "waitforOBNSignal dflt (resetOBNSignal s1) ws1 = Blocks"
  from h have w1: "waitforOBNSignal dflt s ws = Returns (EPSIG_Y, s1, ws1)"
    and n: "0 \<le> nDblWri a" "nDblWri a < 2 ^ 31" by simp_all
  from exchange_after_UPDATE_Y [OF node w1 n, of now b] obtain s4 where
    m4: "obn_signal_to_eplus s4 = EPSIG_NONE"
    and d4: "default_obn_timeout s4 = default_obn_timeout s"
    and ex: "exchangedoublewithOBN dflt now a b s ws =
             and_then (waitforOBNSignal dflt s4 ws1) (\<lambda>(sig', s5, ws2).
               if sig' \<noteq> EPSIG_X
               then Returns (fst (processOBNSignal sig' 0),
                             b\<lparr>flaRea := snd (processOBNSignal sig' 0)\<rparr>, resetOBNSignal s5, ws2)
               else and_then (getInputValues (b\<lparr>flaRea := 0\<rparr>) (resetOBNSignal s5))
                      (\<lambda>(retVal', b1, s7).
                         Returns (retVal', b1\<lparr>simTimRea := now\<rparr>, signalOBN OBNSIG_DONE s7, ws2)))"
    by blast
  have r1: "resetOBNSignal s1 = s\<lparr>obn_signal_to_eplus := EPSIG_NONE,
             history := history s @ [WaitOBNReturned EPSIG_Y, ResetOBNSignal]\<rparr>"
    by (rule wait_then_reset [OF w1])
  from wait_transfer_Blocks [OF w2, of s4] m4 d4 r1
  have "waitforOBNSignal dflt s4 ws1 = Blocks" by simp
  with ex show "exchangedoublewithOBN dflt now a b s ws = Blocks" by simp
next
  assume h: "waitforOBNSignal dflt s ws = Returns (EPSIG_Y, s1, ws1) \<and>
          0 \<le> nDblWri a \<and> nDblWri a < 2 ^ 31"
    and w2: "waitforOBNSignal dflt (resetOBNSignal s1) ws1 = Returns (sig', s2, ws2)"
  from h have w1: "waitforOBNSignal dflt s ws = Returns (EPSIG_Y, s1, ws1)"
    and n: "0 \<le> nDblWri a" "nDblWri a < 2 ^ 31" by simp_all
  from exchange_UPDATE_Y_returns [OF node w1 n w2, of now b]
  show "\<exists>ret b' sn. exchangedoublewithOBN dflt now a b s ws = Returns (ret, b', sn, ws2) \<and>
                  take 5 (drop (length (history s)) (history sn)) =
                    [WaitOBNReturned EPSIG_Y, ResetOBNSignal, SetOutputValues (nat (nDblWri a)),
                     SignalOBN OBNSIG_DONE, WaitOBNReturned sig']"
    by auto
qed


theorem setOutputValues_never_negative_for_int_counts_witness:
  "setOutputValues (size_t_of_int 3) [7, 8, 9] (running_session [6]) =
     Returns (3, (running_session [6])
                   \<lparr>obn_thread :=
                      Some \<lparr>m_thread_joinable = True,
                            m_obnnode = (MQTTNodeEPlus_new ''node1'' ''myworkspace'')
                                          \<lparr>m_double_input := [6], m_double_output := [7, 8, 9]\<rparr>\<rparr>,
                    history := [SetOutputValues 3]\<rparr>) \<and>
   exchangedoublewithOBN (- 1) 10 \<lparr>flaWri = 0, nDblWri = 2, dblValWri = [7, 8]\<rparr>
     \<lparr>flaRea = 0, nDblRea = 0, simTimRea = 0, dblValRea = [0, 0, 0, 0]\<rparr>
     (running_session [6]) [Notified EPSIG_Y] = Blocks \<and>
   (\<exists>ret b' sn.
      exchangedoublewithOBN (- 1) 10 \<lparr>flaWri = 0, nDblWri = 2, dblValWri = [7, 8]\<rparr>
        \<lparr>flaRea = 0, nDblRea = 0, simTimRea = 0, dblValRea = [0, 0, 0, 0]\<rparr>
        (running_session [6]) [Notified EPSIG_Y, Notified EPSIG_QUIT] =
      Returns (ret, b', sn, []) \<and>
      take 5 (history sn) =
        [WaitOBNReturned EPSIG_Y, ResetOBNSignal, SetOutputValues 2, SignalOBN OBNSIG_DONE,
         WaitOBNReturned EPSIG_QUIT])"
proof -
  let ?s = "running_session [6]"
  let ?th = "\<lparr>m_thread_joinable = True,
             m_obnnode = (MQTTNodeEPlus_new ''node1'' ''myworkspace'')
                           \<lparr>m_double_input := [6 :: nat]\<rparr>\<rparr>"
  let ?s3 = "?s\<lparr>obn_thread :=
                  Some \<lparr>m_thread_joinable = True,
                        m_obnnode = (MQTTNodeEPlus_new ''node1'' ''myworkspace'')
                                      \<lparr>m_double_input := [6], m_double_output := [7, 8, 9]\<rparr>\<rparr>,
                history := [SetOutputValues 3]\<rparr>"
  let ?s1 = "?s\<lparr>obn_signal_to_eplus := EPSIG_Y, history := [WaitOBNReturned EPSIG_Y]\<rparr>"
  let ?a = "\<lparr>flaWri = 0, nDblWri = 2, dblValWri = [7, 8 :: nat]\<rparr>"
  let ?b = "\<lparr>flaRea = 0, nDblRea = 0, simTimRea = 0 :: nat, dblValRea = [0, 0, 0, 0]\<rparr>"
  have node: "obn_thread ?s = Some ?th"
    by (simp add: running_session_def)
  have h0: "history ?s = []"
    by (simp add: running_session_def initial_globals_def)
  have so: "setOutputValues (size_t_of_int 3) [7, 8, 9] ?s = Returns (3, ?s3)"
    by (simp add: setOutputValues_def size_t_of_int_def int_of_size_t_def max_doubles_def
        copy_n_def running_session_def initial_globals_def MQTTNodeEPlus_new_def
        log_event_def Let_def)
  have wA: "waitforOBNSignal (- 1) ?s [Notified EPSIG_Y] = Returns (EPSIG_Y, ?s1, [])"
    by (simp add: waitforOBNSignal_def running_session_def initial_globals_def log_event_def)
  have wA2: "waitforOBNSignal (- 1) (resetOBNSignal ?s1) [] = Blocks"
    by (simp add: waitforOBNSignal_def resetOBNSignal_def running_session_def
        initial_globals_def log_event_def)
  have wB: "waitforOBNSignal (- 1) ?s [Notified EPSIG_Y, Notified EPSIG_QUIT] =
              Returns (EPSIG_Y, ?s1, [Notified EPSIG_QUIT])"
    by (simp add: waitforOBNSignal_def running_session_def initial_globals_def log_event_def)
  have wB2: "waitforOBNSignal (- 1) (resetOBNSignal ?s1) [Notified EPSIG_QUIT] =
               Returns (EPSIG_QUIT,
                        ?s\<lparr>obn_signal_to_eplus := EPSIG_QUIT,
                           history := [WaitOBNReturned EPSIG_Y, ResetOBNSignal,
                                       WaitOBNReturned EPSIG_QUIT]\<rparr>, [])"
    by (simp add: waitforOBNSignal_def resetOBNSignal_def running_session_def
        initial_globals_def log_event_def)
  from setOutputValues_never_negative_for_int_counts
    [OF node, where i = 3 and vals = "[7, 8, 9]" and r = 3 and s' = ?s3
       and dflt = "- 1" and ws = "[Notified EPSIG_Y]"
       and ?s1.0 = ?s1 and ?ws1.0 = "[]" and a = ?a and now = 10 and b = ?b]
    so wA wA2 h0
  have A: "exchangedoublewithOBN (- 1) 10 ?a ?b ?s [Notified EPSIG_Y] = Blocks"
    by simp
  from setOutputValues_never_negative_for_int_counts
    [OF node, where dflt = "- 1" and ws = "[Notified EPSIG_Y, Notified EPSIG_QUIT]"
       and ?s1.0 = ?s1 and ?ws1.0 = "[Notified EPSIG_QUIT]" and a = ?a and now = 10 and b = ?b
       and sig' = EPSIG_QUIT and ?ws2.0 = "[]"
       and ?s2.0 = "?s\<lparr>obn_signal_to_eplus := EPSIG_QUIT,
                           history := [WaitOBNReturned EPSIG_Y, ResetOBNSignal,
                                       WaitOBNReturned EPSIG_QUIT]\<rparr>"]
    wB wB2 h0
  have B: "\<exists>ret b' sn.
      exchangedoublewithOBN (- 1) 10 ?a ?b ?s [Notified EPSIG_Y, Notified EPSIG_QUIT] =
      Returns (ret, b', sn, []) \<and>
      take 5 (history sn) =
        [WaitOBNReturned EPSIG_Y, ResetOBNSignal, SetOutputValues 2, SignalOBN OBNSIG_DONE,
         WaitOBNReturned EPSIG_QUIT]"
    by simp
  from so A B show ?thesis by simp
qed

subsection \<open>Steps of the simulation loop\<close>

lemma outputs_published_append:
  "outputs_published (xs @ ys) = outputs_published xs + outputs_published ys"
  by (simp add: outputs_published_def)

lemma update_y_observed_append:
  "update_y_observed (xs @ ys) = update_y_observed xs + update_y_observed ys"
  by (simp add: update_y_observed_def)

lemma published_then_done_append:
  "published_then_done xs \<Longrightarrow> published_then_done ys \<Longrightarrow> published_then_done (xs @ ys)"
proof (induction xs)
  case Nil
  then show ?case by simp
next
  case (Cons e es)
  then show ?case by (cases es) auto
qed

text \<open>Normal operation depends on the state only through what the waits read.\<close>

lemma normal_steps_agree:
  "normal_steps dflt cs s ws \<Longrightarrow> obn_signal_to_eplus t = obn_signal_to_eplus s \<Longrightarrow>
   default_obn_timeout t = default_obn_timeout s \<Longrightarrow> normal_steps dflt cs t ws"
proof (induction cs arbitrary: s t ws)
  case Nil
  show ?case by simp
next
  case (Cons c cs)
  obtain now a where c: "c = (now, a)" by (cases c)
  from Cons.prems(1) c obtain sig s1 ws1 where
    w1: "waitforOBNSignal dflt s ws = Returns (sig, s1, ws1)"
    by (cases "waitforOBNSignal dflt s ws") auto
  from wait_transfer [OF w1 Cons.prems(2) Cons.prems(3)] obtain t1 where
    v1: "waitforOBNSignal dflt t ws = Returns (sig, t1, ws1)" by blast
  have agree1: "obn_signal_to_eplus (resetOBNSignal t1) = obn_signal_to_eplus (resetOBNSignal s1)"
    "default_obn_timeout (resetOBNSignal t1) = default_obn_timeout (resetOBNSignal s1)"
    using Cons.prems(3) by (simp_all add: wait_then_reset [OF w1] wait_then_reset [OF v1])
  show ?case
  proof (cases "sig = EPSIG_Y")
    case False
    with Cons.prems(1) c w1 have sg: "sig = EPSIG_TERM \<or> sig = EPSIG_QUIT"
      and rest: "normal_steps dflt cs (resetOBNSignal s1) ws1"
      by simp_all
    from Cons.IH [OF rest agree1] False sg v1 c show ?thesis by simp
  next
    case True
    with Cons.prems(1) c w1 have n: "0 \<le> nDblWri a" "nDblWri a < 2 ^ 31"
      by simp_all
    from True Cons.prems(1) c w1 obtain sig' s2 ws2 where
      w2: "waitforOBNSignal dflt (resetOBNSignal s1) ws1 = Returns (sig', s2, ws2)"
      by (cases "waitforOBNSignal dflt (resetOBNSignal s1) ws1") auto
    with True Cons.prems(1) c w1 have sg: "sig' = EPSIG_X \<or> sig' = EPSIG_TERM \<or> sig' = EPSIG_QUIT"
      and rest: "normal_steps dflt cs (resetOBNSignal s2) ws2"
      by simp_all
    from wait_transfer [OF w2 agree1] obtain t2 where
      v2: "waitforOBNSignal dflt (resetOBNSignal t1) ws1 = Returns (sig', t2, ws2)" by blast
    have agree2: "obn_signal_to_eplus (resetOBNSignal t2) = obn_signal_to_eplus (resetOBNSignal s2)"
      "default_obn_timeout (resetOBNSignal t2) = default_obn_timeout (resetOBNSignal s2)"
      using agree1(2) by (simp_all add: wait_then_reset [OF w2] wait_then_reset [OF v2])
    from Cons.IH [OF rest agree2] True n sg v1 v2 c show ?thesis by simp
  qed
qed

lemma exchange_steps_normal:
  "obn_thread s \<noteq> None \<Longrightarrow> normal_steps dflt cs s ws \<Longrightarrow>
     \<exists>rs bn sn wsn evs.
        exchange_steps dflt cs b s ws = Returns (rs, bn, sn, wsn) \<and>
        length rs = length cs \<and>
        history sn = history s @ evs \<and>
        outputs_published evs = update_y_observed evs \<and>
        published_then_done evs"
proof (induction cs arbitrary: b s ws)
  case Nil
  show ?case by (simp add: outputs_published_def update_y_observed_def)
next
  case (Cons c cs)
  obtain now a where c: "c = (now, a)" by (cases c)
  from Cons.prems(1) obtain th where node: "obn_thread s = Some th" by auto
  from Cons.prems(2) c obtain sig s1 ws1 where
    w1: "waitforOBNSignal dflt s ws = Returns (sig, s1, ws1)"
    by (cases "waitforOBNSignal dflt s ws") auto
  have "\<exists>r b1 s' ws' evs1.
          exchangedoublewithOBN dflt now a b s ws = Returns (r, b1, s', ws') \<and>
          obn_thread s' \<noteq> None \<and> normal_steps dflt cs s' ws' \<and>
          history s' = history s @ evs1 \<and>
          outputs_published evs1 = update_y_observed evs1 \<and> published_then_done evs1"
  proof (cases "sig = EPSIG_Y")
    case False
    with Cons.prems(2) c w1 have sg: "sig = EPSIG_TERM \<or> sig = EPSIG_QUIT"
      and rest: "normal_steps dflt cs (resetOBNSignal s1) ws1"
      by simp_all
    let ?s' = "s\<lparr>obn_signal_to_eplus := EPSIG_NONE,
                 history := history s @ [WaitOBNReturned sig, ResetOBNSignal]\<rparr>"
    have "?s' = resetOBNSignal s1" by (simp add: wait_then_reset [OF w1])
    with rest have "normal_steps dflt cs ?s' ws1" by simp
    with exchange_other_signal_returns [OF node w1 False, of now a b] node False
    show ?thesis
      by (auto simp: outputs_published_def update_y_observed_def)
  next
    case True
    with Cons.prems(2) c w1 have n: "0 \<le> nDblWri a" "nDblWri a < 2 ^ 31"
      by simp_all
    from True Cons.prems(2) c w1 obtain sig' s2 ws2 where
      w2: "waitforOBNSignal dflt (resetOBNSignal s1) ws1 = Returns (sig', s2, ws2)"
      by (cases "waitforOBNSignal dflt (resetOBNSignal s1) ws1") auto
    with True Cons.prems(2) c w1 have sg: "sig' = EPSIG_X \<or> sig' = EPSIG_TERM \<or> sig' = EPSIG_QUIT"
      and rest: "normal_steps dflt cs (resetOBNSignal s2) ws2"
      by simp_all
    from exchange_UPDATE_Y_returns [OF node w1 [unfolded True] n w2 [unfolded True], of now b]
    obtain r b1 s' tail where
      ex: "exchangedoublewithOBN dflt now a b s ws = Returns (r, b1, s', ws2)"
      and m: "obn_signal_to_eplus s' = EPSIG_NONE"
      and d: "default_obn_timeout s' = default_obn_timeout s"
      and t: "obn_thread s' \<noteq> None"
      and h: "history s' = history s @
             [WaitOBNReturned EPSIG_Y, ResetOBNSignal, SetOutputValues (nat (nDblWri a)),
              SignalOBN OBNSIG_DONE, WaitOBNReturned sig', ResetOBNSignal] @ tail"
      and tl: "sig' \<noteq> EPSIG_X \<and> tail = [] \<or>
            sig' = EPSIG_X \<and> (\<exists>g. tail = [GetInputValues g, SignalOBN OBNSIG_DONE])"
      by blast
    have "obn_signal_to_eplus s' = obn_signal_to_eplus (resetOBNSignal s2)"
      and "default_obn_timeout s' = default_obn_timeout (resetOBNSignal s2)"
      using m d by (simp_all add: wait_then_reset [OF w2] wait_then_reset [OF w1])
    from normal_steps_agree [OF rest this] have ns: "normal_steps dflt cs s' ws2" .
    from sg tl have "outputs_published ([WaitOBNReturned EPSIG_Y, ResetOBNSignal,
              SetOutputValues (nat (nDblWri a)), SignalOBN OBNSIG_DONE,
              WaitOBNReturned sig', ResetOBNSignal] @ tail) =
           update_y_observed ([WaitOBNReturned EPSIG_Y, ResetOBNSignal,
              SetOutputValues (nat (nDblWri a)), SignalOBN OBNSIG_DONE,
              WaitOBNReturned sig', ResetOBNSignal] @ tail)"
      and "published_then_done ([WaitOBNReturned EPSIG_Y, ResetOBNSignal,
              SetOutputValues (nat (nDblWri a)), SignalOBN OBNSIG_DONE,
              WaitOBNReturned sig', ResetOBNSignal] @ tail)"
      by (auto simp: outputs_published_def update_y_observed_def)
    with ex t ns h show ?thesis by blast
  qed
  then obtain r b1 s' ws' evs1 where
    ex: "exchangedoublewithOBN dflt now a b s ws = Returns (r, b1, s', ws')"
    and t: "obn_thread s' \<noteq> None" and ns: "normal_steps dflt cs s' ws'"
    and e1: "history s' = history s @ evs1" "outputs_published evs1 = update_y_observed evs1"
      "published_then_done evs1"
    by blast
  from Cons.IH [OF t ns, of b1] obtain rs bn sn wsn evs2 where
    st: "exchange_steps dflt cs b1 s' ws' = Returns (rs, bn, sn, wsn)"
    and len: "length rs = length cs"
    and e2: "history sn = history s' @ evs2" "outputs_published evs2 = update_y_observed evs2"
      "published_then_done evs2"
    by blast
  have "exchange_steps dflt (c # cs) b s ws = Returns (r # rs, bn, sn, wsn)"
    by (simp add: c ex st)
  moreover have "history sn = history s @ (evs1 @ evs2)"
    by (simp add: e1 e2)
  moreover have "outputs_published (evs1 @ evs2) = update_y_observed (evs1 @ evs2)"
    by (simp add: e1 e2 outputs_published_append update_y_observed_append)
  moreover have "published_then_done (evs1 @ evs2)"
    by (simp add: e1 e2 published_then_done_append)
  ultimately show ?case using len by (intro exI [of _ "r # rs"] exI [of _ bn] exI [of _ sn]
        exI [of _ wsn] exI [of _ "evs1 @ evs2"]) simp
qed

text \<open>
  C2. With a node in place, a call of the gateway whose first wait returns a signal other
  than UPDATE_Y returns without a call of \<^verbatim>\<open>setOutputValues\<close>; a call whose first wait
  returns UPDATE_Y and whose second wait returns has called \<^verbatim>\<open>setOutputValues\<close> exactly
  once; and every call of \<^verbatim>\<open>setOutputValues\<close> is followed at once by the post of DONE.
  Hence every run of steps in normal operation returns from each of its calls, and in its
  log the number of calls of \<^verbatim>\<open>setOutputValues\<close> equals the number of times a wait of the
  engine returned UPDATE_Y.
\<close>

theorem publish_outputs_once_per_UPDATE_Y:
  assumes node: "obn_thread s = Some th"
  shows "(waitforOBNSignal dflt s ws = Returns (sig, s1, ws1) \<and> sig \<noteq> EPSIG_Y \<longrightarrow>
            (\<exists>r b' s' evs.
               exchangedoublewithOBN dflt now a b s ws = Returns (r, b', s', ws1) \<and>
               history s' = history s @ evs \<and>
               outputs_published evs = 0 \<and> published_then_done evs)) \<and>
         (waitforOBNSignal dflt s ws = Returns (EPSIG_Y, s1, ws1) \<and>
          0 \<le> nDblWri a \<and> nDblWri a < 2 ^ 31 \<and>
          waitforOBNSignal dflt (resetOBNSignal s1) ws1 = Returns (sig', s2, ws2) \<longrightarrow>
            (\<exists>r b' s' evs.
               exchangedoublewithOBN dflt now a b s ws = Returns (r, b', s', ws2) \<and>
               history s' = history s @ evs \<and>
               outputs_published evs = 1 \<and> published_then_done evs)) \<and>
         (normal_steps dflt cs s ws \<longrightarrow>
            (\<exists>rs bn sn wsn evs.
               exchange_steps dflt cs b s ws = Returns (rs, bn, sn, wsn) \<and>
               length rs = length cs \<and>
               history sn = history s @ evs \<and>
               outputs_published evs = update_y_observed evs \<and>
               published_then_done evs))"
proof (intro conjI impI)
  assume h: "waitforOBNSignal dflt s ws = Returns (sig, s1, ws1) \<and> sig \<noteq> EPSIG_Y"
  then have w1: "waitforOBNSignal dflt s ws = Returns (sig, s1, ws1)"
    and sig: "sig \<noteq> EPSIG_Y" by simp_all
  from exchange_other_signal_returns [OF node w1 sig, of now a b]
  show "\<exists>r b' s' evs.
               exchangedoublewithOBN dflt now a b s ws = Returns (r, b', s', ws1) \<and>
               history s' = history s @ evs \<and>
               outputs_published evs = 0 \<and> published_then_done evs"
    by (simp add: outputs_published_def)
next
  assume h: "waitforOBNSignal dflt s ws = Returns (EPSIG_Y, s1, ws1) \<and>
          0 \<le> nDblWri a \<and> nDblWri a < 2 ^ 31 \<and>
          waitforOBNSignal dflt (resetOBNSignal s1) ws1 = Returns (sig', s2, ws2)"
  then have w1: "waitforOBNSignal dflt s ws = Returns (EPSIG_Y, s1, ws1)"
    and n: "0 \<le> nDblWri a" "nDblWri a < 2 ^ 31"
    and w2: "waitforOBNSignal dflt (resetOBNSignal s1) ws1 = Returns (sig', s2, ws2)"
    by simp_all
  from exchange_UPDATE_Y_returns [OF node w1 n w2, of now b]
  obtain r b1 s' tail where
    ex: "exchangedoublewithOBN dflt now a b s ws = Returns (r, b1, s', ws2)"
    and h: "history s' = history s @
             [WaitOBNReturned EPSIG_Y, ResetOBNSignal, SetOutputValues (nat (nDblWri a)),
              SignalOBN OBNSIG_DONE, WaitOBNReturned sig', ResetOBNSignal] @ tail"
    and tl: "sig' \<noteq> EPSIG_X \<and> tail = [] \<or>
            sig' = EPSIG_X \<and> (\<exists>g. tail = [GetInputValues g, SignalOBN OBNSIG_DONE])"
    by blast
  from tl have "outputs_published ([WaitOBNReturned EPSIG_Y, ResetOBNSignal,
              SetOutputValues (nat (nDblWri a)), SignalOBN OBNSIG_DONE,
              WaitOBNReturned sig', ResetOBNSignal] @ tail) = 1"
    and "published_then_done ([WaitOBNReturned EPSIG_Y, ResetOBNSignal,
              SetOutputValues (nat (nDblWri a)), SignalOBN OBNSIG_DONE,
              WaitOBNReturned sig', ResetOBNSignal] @ tail)"
    by (auto simp: outputs_published_def)
  with ex h show "\<exists>r b' s' evs.
               exchangedoublewithOBN dflt now a b s ws = Returns (r, b', s', ws2) \<and>
               history s' = history s @ evs \<and>
               outputs_published evs = 1 \<and> published_then_done evs"
    by blast
next
  assume "normal_steps dflt cs s ws"
  with node show "\<exists>rs bn sn wsn evs.
               exchange_steps dflt cs b s ws = Returns (rs, bn, sn, wsn) \<and>
               length rs = length cs \<and>
               history sn = history s @ evs \<and>
               outputs_published evs = update_y_observed evs \<and>
               published_then_done evs"
    using exchange_steps_normal [of s dflt cs ws b] by simp
qed

theorem publish_outputs_once_per_UPDATE_Y_witness:
  "normal_steps (- 1)
     [(10, \<lparr>flaWri = 0, nDblWri = 2, dblValWri = [7, 8]\<rparr>),
      (20, \<lparr>flaWri = 0, nDblWri = 1, dblValWri = [9]\<rparr>)]
     (running_session [3, 4, 5])
     [Notified EPSIG_Y, Notified EPSIG_X, Notified EPSIG_TERM] \<and>
   (\<exists>rs bn sn wsn evs.
      exchange_steps (- 1)
        [(10, \<lparr>flaWri = 0, nDblWri = 2, dblValWri = [7, 8]\<rparr>),
         (20, \<lparr>flaWri = 0, nDblWri = 1, dblValWri = [9]\<rparr>)]
        \<lparr>flaRea = 0, nDblRea = 0, simTimRea = 0, dblValRea = [0, 0, 0, 0]\<rparr>
        (running_session [3, 4, 5])
        [Notified EPSIG_Y, Notified EPSIG_X, Notified EPSIG_TERM] =
      Returns (rs, bn, sn, wsn) \<and>
      length rs = Suc (Suc 0) \<and> history sn = evs \<and>
      outputs_published evs = update_y_observed evs \<and> published_then_done evs) \<and>
   (\<exists>r b' s' evs.
      exchangedoublewithOBN (- 1) 10 \<lparr>flaWri = 0, nDblWri = 2, dblValWri = [7, 8]\<rparr>
        \<lparr>flaRea = 0, nDblRea = 0, simTimRea = 0, dblValRea = [0, 0, 0, 0]\<rparr>
        (running_session [3, 4, 5])
        [Notified EPSIG_Y, Notified EPSIG_X, Notified EPSIG_TERM] =
      Returns (r, b', s', [Notified EPSIG_TERM]) \<and>
      history s' = evs \<and> outputs_published evs = 1 \<and> published_then_done evs) \<and>
   (\<exists>r b' s' evs.
      exchangedoublewithOBN (- 1) 10 \<lparr>flaWri = 0, nDblWri = 2, dblValWri = [7, 8]\<rparr>
        \<lparr>flaRea = 0, nDblRea = 0, simTimRea = 0, dblValRea = [0, 0, 0, 0]\<rparr>
        (running_session [3, 4, 5]) [Notified EPSIG_TERM] =
      Returns (r, b', s', []) \<and>
      history s' = evs \<and> outputs_published evs = 0 \<and> published_then_done evs)"
proof -
  let ?a1 = "\<lparr>flaWri = 0, nDblWri = 2, dblValWri = [7, 8 :: nat]\<rparr>"
  let ?a2 = "\<lparr>flaWri = 0, nDblWri = 1, dblValWri = [9 :: nat]\<rparr>"
  let ?b0 = "\<lparr>flaRea = 0, nDblRea = 0, simTimRea = 0 :: nat, dblValRea = [0, 0, 0, 0]\<rparr>"
  let ?s0 = "running_session [3, 4, 5]"
  let ?th = "\<lparr>m_thread_joinable = True,
             m_obnnode = (MQTTNodeEPlus_new ''node1'' ''myworkspace'')
                           \<lparr>m_double_input := [3, 4, 5 :: nat]\<rparr>\<rparr>"
  let ?ws0 = "[Notified EPSIG_Y, Notified EPSIG_X, Notified EPSIG_TERM]"
  let ?s1 = "?s0\<lparr>obn_signal_to_eplus := EPSIG_Y, history := [WaitOBNReturned EPSIG_Y]\<rparr>"
  let ?s2 = "?s0\<lparr>obn_signal_to_eplus := EPSIG_X,
                history := [WaitOBNReturned EPSIG_Y, ResetOBNSignal, WaitOBNReturned EPSIG_X]\<rparr>"
  let ?t1 = "?s0\<lparr>obn_signal_to_eplus := EPSIG_TERM, history := [WaitOBNReturned EPSIG_TERM]\<rparr>"
  have node: "obn_thread ?s0 = Some ?th"
    by (simp add: running_session_def)
  have h0: "history ?s0 = []"
    by (simp add: running_session_def initial_globals_def)
  have w1: "waitforOBNSignal (- 1) ?s0 ?ws0 =
              Returns (EPSIG_Y, ?s1, [Notified EPSIG_X, Notified EPSIG_TERM])"
    by (simp add: waitforOBNSignal_def running_session_def initial_globals_def log_event_def)
  have w2: "waitforOBNSignal (- 1) (resetOBNSignal ?s1) [Notified EPSIG_X, Notified EPSIG_TERM] =
              Returns (EPSIG_X, ?s2, [Notified EPSIG_TERM])"
    by (simp add: waitforOBNSignal_def resetOBNSignal_def running_session_def
        initial_globals_def log_event_def)
  have w3: "waitforOBNSignal (- 1) ?s0 [Notified EPSIG_TERM] = Returns (EPSIG_TERM, ?t1, [])"
    by (simp add: waitforOBNSignal_def running_session_def initial_globals_def log_event_def)
  have ns: "normal_steps (- 1) [(10, ?a1), (20, ?a2)] ?s0 ?ws0"
    by (simp add: waitforOBNSignal_def resetOBNSignal_def running_session_def
        initial_globals_def log_event_def)
  note T = publish_outputs_once_per_UPDATE_Y
    [OF node, where dflt = "- 1" and ws = ?ws0 and ?s1.0 = ?s1
       and ?ws1.0 = "[Notified EPSIG_X, Notified EPSIG_TERM]" and a = ?a1
       and sig' = EPSIG_X and ?s2.0 = ?s2 and ?ws2.0 = "[Notified EPSIG_TERM]"
       and now = 10 and b = ?b0 and cs = "[(10, ?a1), (20, ?a2)]"]
  from T [THEN conjunct2, THEN conjunct1] w1 w2 h0
  have A1: "\<exists>r b' s' evs.
      exchangedoublewithOBN (- 1) 10 ?a1 ?b0 ?s0 ?ws0 =
      Returns (r, b', s', [Notified EPSIG_TERM]) \<and>
      history s' = evs \<and> outputs_published evs = 1 \<and> published_then_done evs"
    by simp
  from T [THEN conjunct2, THEN conjunct2, THEN mp, OF ns] h0
  have A2: "\<exists>rs bn sn wsn evs.
      exchange_steps (- 1) [(10, ?a1), (20, ?a2)] ?b0 ?s0 ?ws0 = Returns (rs, bn, sn, wsn) \<and>
      length rs = Suc (Suc 0) \<and> history sn = evs \<and>
      outputs_published evs = update_y_observed evs \<and> published_then_done evs"
    by (simp del: exchange_steps.simps)
  from publish_outputs_once_per_UPDATE_Y
    [OF node, where dflt = "- 1" and ws = "[Notified EPSIG_TERM]" and ?s1.0 = ?t1
       and ?ws1.0 = "[]" and sig = EPSIG_TERM and a = ?a1 and now = 10 and b = ?b0]
    w3 h0
  have B: "\<exists>r b' s' evs.
      exchangedoublewithOBN (- 1) 10 ?a1 ?b0 ?s0 [Notified EPSIG_TERM] =
      Returns (r, b', s', []) \<and>
      history s' = evs \<and> outputs_published evs = 0 \<and> published_then_done evs"
    by simp
  from ns A1 A2 B show ?thesis by (simp del: exchange_steps.simps normal_steps.simps)
qed

subsection \<open>Start-up\<close>

lemma option_line_obn_thread: "obn_thread (option_line l s) = obn_thread s"
  by (simp add: option_line_def setOBNTimeout_def Let_def split: prod.splits option.splits)

lemma option_lines_obn_thread:
  "obn_thread (snd (snd (option_lines b f s))) = obn_thread s"
proof (induction b f s rule: option_lines.induct)
  case (1 success f s)
  show ?case
  proof (cases "success \<and> state f = Good")
    case False
    then show ?thesis by (auto simp: option_lines.simps [of success f s])
  next
    case True
    obtain f' l where g: "getline f = (f', l)" by (cases "getline f")
    show ?thesis
    proof (cases l)
      case None
      with True g "1.IH"(1) [of f' l] show ?thesis
        by (subst option_lines.simps) simp
    next
      case (Some oneline)
      with True g "1.IH"(2) [of f' l oneline] show ?thesis
        by (subst option_lines.simps) (simp add: option_line_obn_thread)
    qed
  qed
qed

lemma option_lines_obn_thread':
  "option_lines b f s = (b', f', s') \<Longrightarrow> obn_thread s' = obn_thread s"
  using option_lines_obn_thread [of b f s] by simp

lemma read_config_obn_thread:
  "read_config file s = (success, vars, s1) \<Longrightarrow> obn_thread s1 = obn_thread s"
  by (auto simp: read_config_def Let_def split: option.splits prod.splits
      dest: option_lines_obn_thread')

lemma read_config_comm:
  "read_config (Some cfg) s = (True, vars, s1) \<Longrightarrow> comm vars = fst (split_word (first_line cfg))"
  by (auto simp: read_config_def Let_def getline_def first_line_def
      split: option.splits prod.splits list.splits if_splits)

lemma scenario_read:
  assumes "tail = [] \<or> tail = [newline]"
  shows "read_config (Some (''mqtt'' @ [newline] @ ''node1 myworkspace'' @ [newline] @ ''timeout 5'' @ tail)) s =
     (True, \<lparr>node_name = ''node1'', workspace = ''myworkspace'', comm = ''mqtt'', comm_config = []\<rparr>,
      s\<lparr>default_obn_timeout := 5\<rparr>)"
proof -
  have "read_config (Some (''mqtt'' @ [newline] @ ''node1 myworkspace'' @ [newline] @ ''timeout 5'')) s =
     (True, \<lparr>node_name = ''node1'', workspace = ''myworkspace'', comm = ''mqtt'', comm_config = []\<rparr>,
      s\<lparr>default_obn_timeout := 5\<rparr>)"
    by (simp add: read_config_def getline_def newline_def option_line_def spacechars_def
      trim_def whitespace_def toLower_def atoi_def strtol_def int_of_long_def digit_value_def
      setOBNTimeout_def
      split_word_def find_first_not_of_from_def option_lines.simps)
  moreover have "read_config (Some (''mqtt'' @ [newline] @ ''node1 myworkspace'' @ [newline] @ ''timeout 5'' @ [newline])) s =
     (True, \<lparr>node_name = ''node1'', workspace = ''myworkspace'', comm = ''mqtt'', comm_config = []\<rparr>,
      s\<lparr>default_obn_timeout := 5\<rparr>)"
    by (simp add: read_config_def getline_def newline_def option_line_def spacechars_def
      trim_def whitespace_def toLower_def atoi_def strtol_def int_of_long_def digit_value_def
      setOBNTimeout_def
      split_word_def find_first_not_of_from_def option_lines.simps)
  ultimately show ?thesis using assms by auto
qed

text \<open>
  C8. At start-up (no node exists yet): a configuration file with the lines \<open>mqtt\<close>,
  \<open>node1 myworkspace\<close>, \<open>timeout 5\<close> (the last line ended by a newline or not), with
  \<open>node1\<close> a valid node name, makes \<^verbatim>\<open>initOBNNode\<close> set the default timeout to 5 and
  create the node with name \<open>node1\<close> and workspace \<open>myworkspace\<close>; its thread runs, and
  \<^verbatim>\<open>initOBNNode\<close> returns true, if the node library opens the port and registers the two
  ports. For every configuration file whose transport selector is not \<open>mqtt\<close>,
  \<^verbatim>\<open>initOBNNode\<close> returns false and no node is created.
\<close>

theorem initOBNNode_configuration:
  assumes none: "obn_thread s = None"
  shows "((tail = [] \<or> tail = [newline]) \<and>
          file_content env path =
            Some (''mqtt'' @ [newline] @ ''node1 myworkspace'' @ [newline] @ ''timeout 5'' @ tail) \<and>
          isValidNodeName env ''node1'' \<longrightarrow>
            initOBNNode env (Some path) s =
              (initialize env,
               s\<lparr>default_obn_timeout := 5,
                 obn_thread := Some \<lparr>m_thread_joinable = initialize env,
                                     m_obnnode = MQTTNodeEPlus_new ''node1'' ''myworkspace''\<rparr>\<rparr>)) \<and>
         (file_content env path = Some cfg \<and> transport_selector cfg \<noteq> ''mqtt'' \<longrightarrow>
            fst (initOBNNode env (Some path) s) = False \<and>
            obn_thread (snd (initOBNNode env (Some path) s)) = None)"
proof (intro conjI impI)
  assume h: "(tail = [] \<or> tail = [newline]) \<and>
          file_content env path =
            Some (''mqtt'' @ [newline] @ ''node1 myworkspace'' @ [newline] @ ''timeout 5'' @ tail) \<and>
          isValidNodeName env ''node1''"
  then have rc: "read_config (file_content env path) s =
     (True, \<lparr>node_name = ''node1'', workspace = ''myworkspace'', comm = ''mqtt'', comm_config = []\<rparr>,
      s\<lparr>default_obn_timeout := 5\<rparr>)"
    using scenario_read [of tail s] by simp
  have t1: "toLower (trim ''mqtt'') = ''mqtt''" and t2: "trim ''node1'' = ''node1''"
    and t3: "trim [] = []"
    by (simp_all add: trim_def toLower_def whitespace_def)
  from h none rc t1 t2 t3 show "initOBNNode env (Some path) s =
              (initialize env,
               s\<lparr>default_obn_timeout := 5,
                 obn_thread := Some \<lparr>m_thread_joinable = initialize env,
                                     m_obnnode = MQTTNodeEPlus_new ''node1'' ''myworkspace''\<rparr>\<rparr>)"
    by (auto simp: initOBNNode_def startThread_def EPlusOBNThread_new_def Let_def)
next
  assume h: "file_content env path = Some cfg \<and> transport_selector cfg \<noteq> ''mqtt''"
  obtain success vars s1 where rc: "read_config (Some cfg) s = (success, vars, s1)"
    by (cases "read_config (Some cfg) s") auto
  from read_config_obn_thread [OF rc] none have n1: "obn_thread s1 = None" by simp
  have "success \<Longrightarrow> toLower (trim (comm vars)) \<noteq> ''mqtt''"
    using read_config_comm [of cfg s vars s1] rc h by (simp add: transport_selector_def)
  with h none rc n1
  show "fst (initOBNNode env (Some path) s) = False"
    and "obn_thread (snd (initOBNNode env (Some path) s)) = None"
    by (auto simp: initOBNNode_def Let_def)
qed

theorem initOBNNode_configuration_witness:
  "initOBNNode
     \<lparr>file_content = (\<lambda>p. if p = ''obn.cfg''
                            then Some (''mqtt'' @ [newline] @ ''node1 myworkspace'' @ [newline] @
                                       ''timeout 5'' @ [newline])
                            else if p = ''tcp.cfg''
                            then Some (''TCP 10.0.0.1'' @ [newline] @ ''node1'' @ [newline])
                            else None),
      isValidNodeName = (\<lambda>n. n \<noteq> []), openSMNPort = True, addInput = True, addOutput = True\<rparr>
     (Some ''obn.cfg'') (initial_globals :: nat globals) =
   (True,
    initial_globals\<lparr>default_obn_timeout := 5,
      obn_thread := Some \<lparr>m_thread_joinable = True,
                          m_obnnode = MQTTNodeEPlus_new ''node1'' ''myworkspace''\<rparr>\<rparr>) \<and>
   initOBNNode
     \<lparr>file_content = (\<lambda>p. if p = ''obn.cfg''
                            then Some (''mqtt'' @ [newline] @ ''node1 myworkspace'' @ [newline] @
                                       ''timeout 5'' @ [newline])
                            else if p = ''tcp.cfg''
                            then Some (''TCP 10.0.0.1'' @ [newline] @ ''node1'' @ [newline])
                            else None),
      isValidNodeName = (\<lambda>n. n \<noteq> []), openSMNPort = True, addInput = True, addOutput = True\<rparr>
     (Some ''tcp.cfg'') (initial_globals :: nat globals) =
   (False, initial_globals)"
proof -
  let ?env = "\<lparr>file_content = (\<lambda>p. if p = ''obn.cfg''
                            then Some (''mqtt'' @ [newline] @ ''node1 myworkspace'' @ [newline] @
                                       ''timeout 5'' @ [newline])
                            else if p = ''tcp.cfg''
                            then Some (''TCP 10.0.0.1'' @ [newline] @ ''node1'' @ [newline])
                            else None),
      isValidNodeName = (\<lambda>n. n \<noteq> []), openSMNPort = True, addInput = True, addOutput = True\<rparr>"
  have none: "obn_thread (initial_globals :: nat globals) = None"
    by (simp add: initial_globals_def)
  have sel: "transport_selector (''TCP 10.0.0.1'' @ [newline] @ ''node1'' @ [newline]) = ''tcp''"
    by (simp add: transport_selector_def first_line_def split_word_def spacechars_def
        newline_def trim_def toLower_def whitespace_def)
  have a: "initOBNNode ?env (Some ''obn.cfg'') (initial_globals :: nat globals) =
   (True,
    initial_globals\<lparr>default_obn_timeout := 5,
      obn_thread := Some \<lparr>m_thread_joinable = True,
                          m_obnnode = MQTTNodeEPlus_new ''node1'' ''myworkspace''\<rparr>\<rparr>)"
    using initOBNNode_configuration [OF none, where env = ?env and path = "''obn.cfg''"
        and tail = "[newline]"]
    by (simp add: initialize_def)
  have b: "fst (initOBNNode ?env (Some ''tcp.cfg'') (initial_globals :: nat globals)) = False \<and>
           obn_thread (snd (initOBNNode ?env (Some ''tcp.cfg'') (initial_globals :: nat globals))) = None"
    using initOBNNode_configuration [OF none, where env = ?env and path = "''tcp.cfg''"
        and cfg = "''TCP 10.0.0.1'' @ [newline] @ ''node1'' @ [newline]"] sel
    by simp
  have c: "initOBNNode ?env (Some ''tcp.cfg'') (initial_globals :: nat globals) =
             (False, initial_globals)"
    by (simp add: initOBNNode_def read_config_def getline_def newline_def split_word_def
        spacechars_def find_first_not_of_from_def trim_def toLower_def whitespace_def
        option_lines.simps initial_globals_def)
  from a b c show ?thesis by simp
qed

end
